theory Spec2Isabelle
  imports Complex_Main "HOL-Library.Word" "HOL-Library.Finite_Map"
begin

unbundle bit_operations_syntax

chapter \<open>A shallow embedding of the multi-threaded file store\<close>

text \<open>
  The development follows the C++ sources: the run-length codec
  (\<^verbatim>\<open>fs/src/compression.cpp\<close>), the four policy caches and their manager
  (\<^verbatim>\<open>cache/include/cache/enhanced_cache.tpp\<close>), the journal
  (\<^verbatim>\<open>journal/src/journal.cpp\<close>) and the filesystem coordinator
  (\<^verbatim>\<open>fs/src/filesystem.cpp\<close>). Mutation is explicit state passing, a thrown
  exception is the left injection of a sum, and a loop that need not terminate is a
  \<^theory_text>\<open>partial_function\<close> into \<open>option\<close>. Time stamps
  (\<^verbatim>\<open>lastAccessed\<close>, \<^verbatim>\<open>createdAt\<close>) and log output influence no result
  of the modelled operations and are left out.
\<close>

section \<open>Codec: definitions\<close>

type_synonym byte = "8 word"

subsection \<open>Run-length body\<close>

text \<open>
  The inner loop of \<^verbatim>\<open>rleCompress\<close>:
  \<^verbatim>\<open>while (i + count < data.size() && data[i + count] == currentChar && count < 255) count++;\<close>
  The counter is a \<^verbatim>\<open>uint8_t\<close> that the guard keeps below 256, so it is a
  natural number here and converted when it is stored.
\<close>

function count_run :: "byte list \<Rightarrow> nat \<Rightarrow> byte \<Rightarrow> nat \<Rightarrow> nat" where
  "count_run data i currentChar count =
     (if i + count < length data \<and> data ! (i + count) = currentChar \<and> count < 255
      then count_run data i currentChar (count + 1)
      else count)"
  by pat_completeness auto
termination
  by (relation "measure (\<lambda>(data, i, currentChar, count). 255 - count)") auto

declare count_run.simps [simp del]

lemma count_run_ge: "count \<le> count_run data i currentChar count"
proof (induction data i currentChar count rule: count_run.induct)
  case (1 data i currentChar count)
  then show ?case
    by (subst count_run.simps) (auto simp del: count_run.simps)
qed

text \<open>
  The outer loop of \<^verbatim>\<open>rleCompress\<close>: one pair \<open>(count, byte)\<close> is pushed for
  every run and the index advances by the run's length.
\<close>

function rle_loop :: "byte list \<Rightarrow> nat \<Rightarrow> byte list \<Rightarrow> byte list" where
  "rle_loop data i compressed =
     (if i < length data
      then (let currentChar = data ! i;
                count = count_run data i currentChar 1
            in rle_loop data (i + count) (compressed @ [of_nat count, currentChar]))
      else compressed)"
  by pat_completeness auto
termination
proof (relation "measure (\<lambda>(data, i, compressed). length data - i)")
  show "wf (measure (\<lambda>(data, i, compressed). length data - i))"
    by simp
next
  fix data :: "byte list" and i :: nat and compressed :: "byte list"
    and x :: byte and xa :: nat
  assume "i < length data" and "x = data ! i" and "xa = count_run data i x 1"
  moreover have "1 \<le> count_run data i x 1"
    by (rule count_run_ge)
  ultimately show "((data, i + xa, compressed @ [of_nat xa, x]), (data, i, compressed))
      \<in> measure (\<lambda>(data, i, compressed). length data - i)"
    by simp
qed

declare rle_loop.simps [simp del]

definition rleCompress :: "byte list \<Rightarrow> byte list" where
  "rleCompress data = (if data = [] then [] else rle_loop data 0 [])"

text \<open>
  \<^verbatim>\<open>rleDecompress\<close> walks the body two bytes at a time and appends \<open>count\<close>
  copies of the byte; a trailing single byte is skipped by the guard
  \<^verbatim>\<open>i + 1 < data.size()\<close>.
\<close>

fun rleDecompress :: "byte list \<Rightarrow> byte list" where
  "rleDecompress (count # character # rest) =
     replicate (unat count) character @ rleDecompress rest"
| "rleDecompress [count] = []"
| "rleDecompress [] = []"

subsection \<open>Framed header\<close>

text \<open>
  \<^verbatim>\<open>struct CompressionHeader\<close> is copied into the buffer with \<^verbatim>\<open>memcpy\<close>, so
  the frame is the object representation of the struct: little-endian fields at their
  natural alignment, twenty bytes with two padding bytes after \<^verbatim>\<open>version\<close> and
  three after \<^verbatim>\<open>compressionType\<close>. Padding is written as zero and never read.
\<close>

record CompressionHeader =
  magic :: "32 word"
  version :: "16 word"
  originalSize :: "32 word"
  compressedSize :: "32 word"
  compressionType :: byte

definition COMPRESSION_MAGIC :: "32 word" where
  "COMPRESSION_MAGIC = 0x4D544653"

definition COMPRESSION_VERSION :: "16 word" where
  "COMPRESSION_VERSION = 1"

definition sizeof_CompressionHeader :: nat where
  "sizeof_CompressionHeader = 20"

definition le16 :: "16 word \<Rightarrow> byte list" where
  "le16 w = [ucast w, ucast (drop_bit 8 w)]"

definition le32 :: "32 word \<Rightarrow> byte list" where
  "le32 w = [ucast w, ucast (drop_bit 8 w), ucast (drop_bit 16 w), ucast (drop_bit 24 w)]"

definition rd16 :: "byte list \<Rightarrow> 16 word" where
  "rd16 bs = ucast (bs ! 0) OR push_bit 8 (ucast (bs ! 1))"

definition rd32 :: "byte list \<Rightarrow> 32 word" where
  "rd32 bs = ucast (bs ! 0) OR push_bit 8 (ucast (bs ! 1)) OR push_bit 16 (ucast (bs ! 2))
     OR push_bit 24 (ucast (bs ! 3))"

definition header_bytes :: "CompressionHeader \<Rightarrow> byte list" where
  "header_bytes h =
     le32 (magic h) @ le16 (version h) @ [0, 0] @ le32 (originalSize h)
       @ le32 (compressedSize h) @ [compressionType h, 0, 0, 0]"

definition read_header :: "byte list \<Rightarrow> CompressionHeader" where
  "read_header bs =
     \<lparr>magic = rd32 (take 4 bs), version = rd16 (take 2 (drop 4 bs)),
      originalSize = rd32 (take 4 (drop 8 bs)), compressedSize = rd32 (take 4 (drop 12 bs)),
      compressionType = bs ! 16\<rparr>"

datatype codec_error =
  TooSmall | InvalidMagic | UnsupportedVersion | UnsupportedType byte | SizeMismatch

text \<open>
  \<^verbatim>\<open>compress\<close>: both sizes are narrowed to \<^verbatim>\<open>uint32_t\<close> by
  \<^verbatim>\<open>static_cast\<close>, which is \<open>of_nat\<close> into \<open>32 word\<close>.
\<close>

definition compress :: "byte list \<Rightarrow> byte list" where
  "compress data =
     (let rleCompressed = rleCompress data;
          header = \<lparr>magic = COMPRESSION_MAGIC, version = COMPRESSION_VERSION,
                    originalSize = of_nat (length data),
                    compressedSize = of_nat (length rleCompressed),
                    compressionType = 0\<rparr>
      in header_bytes header @ rleCompressed)"

text \<open>
  \<^verbatim>\<open>decompress\<close>: every \<^verbatim>\<open>throw\<close> is an \<open>Inl\<close>. The final test compares the
  \<^verbatim>\<open>size_t\<close> length of the result with the 32-bit header field.
\<close>

definition decompress :: "byte list \<Rightarrow> codec_error + byte list" where
  "decompress compressedData =
     (if length compressedData < sizeof_CompressionHeader then Inl TooSmall
      else let header = read_header compressedData in
        if magic header \<noteq> COMPRESSION_MAGIC then Inl InvalidMagic
        else if version header \<noteq> COMPRESSION_VERSION then Inl UnsupportedVersion
        else let compressedPayload = drop sizeof_CompressionHeader compressedData in
          if compressionType header = 0
          then (let result = rleDecompress compressedPayload in
                if length result \<noteq> unat (originalSize header) then Inl SizeMismatch
                else Inr result)
          else Inl (UnsupportedType (compressionType header)))"

section \<open>Policy caches: definitions\<close>

text \<open>
  \<^verbatim>\<open>size_t\<close> counters (statistics, access counts, frequencies) are natural
  numbers: each is only ever incremented by one, so none wraps within \<open>2 ^ 64\<close>
  operations. The \<^verbatim>\<open>double\<close> hit rate is an exact real number; rounding is not
  modelled.
\<close>

record ('k, 'v) CacheEntry =
  key :: 'k
  val :: 'v
  accessCount :: nat
  isPinned :: bool

definition new_entry :: "'k \<Rightarrow> 'v \<Rightarrow> ('k, 'v) CacheEntry" where
  "new_entry k v = \<lparr>key = k, val = v, accessCount = 0, isPinned = False\<rparr>"

record CacheStatistics =
  hits :: nat
  misses :: nat
  evictions :: nat
  totalAccesses :: nat
  pinnedItems :: nat
  prefetchedItems :: nat
  hitRate :: real

definition new_statistics :: CacheStatistics where
  "new_statistics = \<lparr>hits = 0, misses = 0, evictions = 0, totalAccesses = 0,
     pinnedItems = 0, prefetchedItems = 0, hitRate = 0\<rparr>"

definition updateHitRate :: "CacheStatistics \<Rightarrow> CacheStatistics" where
  "updateHitRate s =
     (let s1 = s\<lparr>totalAccesses := hits s + misses s\<rparr>
      in s1\<lparr>hitRate := (if totalAccesses s1 > 0
                          then (real (hits s1) / real (totalAccesses s1)) * 100
                          else 0)\<rparr>)"

definition count_hit :: "CacheStatistics \<Rightarrow> CacheStatistics" where
  "count_hit s = updateHitRate (s\<lparr>hits := hits s + 1\<rparr>)"

definition count_miss :: "CacheStatistics \<Rightarrow> CacheStatistics" where
  "count_miss s = updateHitRate (s\<lparr>misses := misses s + 1\<rparr>)"

definition count_eviction :: "CacheStatistics \<Rightarrow> CacheStatistics" where
  "count_eviction s = s\<lparr>evictions := evictions s + 1\<rparr>"

definition count_prefetch :: "CacheStatistics \<Rightarrow> CacheStatistics" where
  "count_prefetch s = s\<lparr>prefetchedItems := prefetchedItems s + 1\<rparr>"

text \<open>Two statistics records agree on the access counters and the hit rate.\<close>

definition same_access :: "CacheStatistics \<Rightarrow> CacheStatistics \<Rightarrow> bool" where
  "same_access s t = (hits t = hits s \<and> misses t = misses s
     \<and> totalAccesses t = totalAccesses s \<and> hitRate t = hitRate s)"

text \<open>
  What \<^verbatim>\<open>updateHitRate\<close> establishes: the total is the sum of hits and misses, and
  the hit rate is the percentage of hits.
\<close>

definition stats_consistent :: "CacheStatistics \<Rightarrow> bool" where
  "stats_consistent s =
     (hits s + misses s = totalAccesses s
      \<and> hitRate s = (if totalAccesses s > 0
                      then real (hits s) / real (totalAccesses s) * 100 else 0))"

datatype cache_error = KeyNotFound

subsection \<open>EnhancedLRUCache\<close>

text \<open>
  \<^verbatim>\<open>entries\<close> is the recency list, most recently used first. \<^verbatim>\<open>lookup\<close> maps
  each key to the list node that holds it and is updated together with the list in
  every operation, so \<^verbatim>\<open>lookup.find(key)\<close> is the search of the list for the key
  and the iterator it yields is the position found.
\<close>

record ('k, 'v) EnhancedLRUCache =
  lru_maxCapacity :: nat
  lru_entries :: "('k, 'v) CacheEntry list"
  lru_pinnedKeys :: "'k set"
  lru_stats :: CacheStatistics

definition lru_new :: "nat \<Rightarrow> ('k, 'v) EnhancedLRUCache" where
  "lru_new capacity = \<lparr>lru_maxCapacity = capacity, lru_entries = [], lru_pinnedKeys = {},
     lru_stats = new_statistics\<rparr>"

fun lookup_find :: "'k \<Rightarrow> ('k, 'v) CacheEntry list \<Rightarrow> nat option" where
  "lookup_find k [] = None"
| "lookup_find k (e # es) =
     (if key e = k then Some 0 else map_option Suc (lookup_find k es))"

definition moveToFront :: "nat \<Rightarrow> 'a list \<Rightarrow> 'a list" where
  "moveToFront i es = (if i = 0 then es else es ! i # take i es @ drop (Suc i) es)"

text \<open>
  \<^verbatim>\<open>evict\<close>: the loop leaves by \<^verbatim>\<open>break\<close> after an erase, by \<^verbatim>\<open>break\<close>
  when at most one entry is left after a rotation, or when the list is empty. Nothing
  else bounds it, so it is a partial function: \<open>None\<close> is a run that never returns.
\<close>

partial_function (option) lru_evict ::
  "('k, 'v) EnhancedLRUCache \<Rightarrow> ('k, 'v) EnhancedLRUCache option" where
  "lru_evict c =
     (if lru_entries c = [] then Some c
      else let lastIt = last (lru_entries c) in
        if key lastIt \<notin> lru_pinnedKeys c
        then Some (c\<lparr>lru_entries := butlast (lru_entries c),
                      lru_stats := count_eviction (lru_stats c)\<rparr>)
        else let c1 = c\<lparr>lru_entries :=
                         moveToFront (length (lru_entries c) - 1) (lru_entries c)\<rparr>
             in if length (lru_entries c1) \<le> 1 then Some c1 else lru_evict c1)"

declare lru_evict.simps [code]

definition lru_emplace_front ::
  "'k \<Rightarrow> 'v \<Rightarrow> ('k, 'v) EnhancedLRUCache \<Rightarrow> ('k, 'v) EnhancedLRUCache" where
  "lru_emplace_front k v c = c\<lparr>lru_entries := new_entry k v # lru_entries c\<rparr>"

definition lru_put ::
  "'k \<Rightarrow> 'v \<Rightarrow> ('k, 'v) EnhancedLRUCache \<Rightarrow> ('k, 'v) EnhancedLRUCache option" where
  "lru_put k v c =
     (case lookup_find k (lru_entries c) of
        Some i \<Rightarrow>
          Some (c\<lparr>lru_entries :=
                    moveToFront i ((lru_entries c)[i := (lru_entries c ! i)\<lparr>val := v\<rparr>])\<rparr>)
      | None \<Rightarrow>
          map_option (lru_emplace_front k v)
            (if length (lru_entries c) \<ge> lru_maxCapacity c then lru_evict c else Some c))"

definition lru_get ::
  "'k \<Rightarrow> ('k, 'v) EnhancedLRUCache \<Rightarrow> (cache_error + 'v) \<times> ('k, 'v) EnhancedLRUCache" where
  "lru_get k c =
     (case lookup_find k (lru_entries c) of
        None \<Rightarrow> (Inl KeyNotFound, c\<lparr>lru_stats := count_miss (lru_stats c)\<rparr>)
      | Some i \<Rightarrow>
          (let e = (lru_entries c ! i)\<lparr>accessCount := accessCount (lru_entries c ! i) + 1\<rparr>
           in (Inr (val e),
               c\<lparr>lru_entries := moveToFront i ((lru_entries c)[i := e]),
                 lru_stats := count_hit (lru_stats c)\<rparr>)))"

definition lru_contains :: "'k \<Rightarrow> ('k, 'v) EnhancedLRUCache \<Rightarrow> bool" where
  "lru_contains k c = (lookup_find k (lru_entries c) \<noteq> None)"

definition lru_remove :: "'k \<Rightarrow> ('k, 'v) EnhancedLRUCache \<Rightarrow> ('k, 'v) EnhancedLRUCache" where
  "lru_remove k c =
     (case lookup_find k (lru_entries c) of
        Some i \<Rightarrow> c\<lparr>lru_entries := take i (lru_entries c) @ drop (Suc i) (lru_entries c),
                     lru_pinnedKeys := lru_pinnedKeys c - {k}\<rparr>
      | None \<Rightarrow> c)"

definition lru_clear :: "('k, 'v) EnhancedLRUCache \<Rightarrow> ('k, 'v) EnhancedLRUCache" where
  "lru_clear c = c\<lparr>lru_entries := [], lru_pinnedKeys := {}\<rparr>"

definition lru_size :: "('k, 'v) EnhancedLRUCache \<Rightarrow> nat" where
  "lru_size c = length (lru_entries c)"

definition lru_getStatistics :: "('k, 'v) EnhancedLRUCache \<Rightarrow> CacheStatistics" where
  "lru_getStatistics c = (lru_stats c)\<lparr>pinnedItems := card (lru_pinnedKeys c)\<rparr>"

definition lru_resetStatistics :: "('k, 'v) EnhancedLRUCache \<Rightarrow> ('k, 'v) EnhancedLRUCache" where
  "lru_resetStatistics c = c\<lparr>lru_stats := new_statistics\<rparr>"

definition lru_pin :: "'k \<Rightarrow> ('k, 'v) EnhancedLRUCache \<Rightarrow> ('k, 'v) EnhancedLRUCache" where
  "lru_pin k c =
     (if lookup_find k (lru_entries c) \<noteq> None
      then c\<lparr>lru_pinnedKeys := insert k (lru_pinnedKeys c)\<rparr> else c)"

definition lru_unpin :: "'k \<Rightarrow> ('k, 'v) EnhancedLRUCache \<Rightarrow> ('k, 'v) EnhancedLRUCache" where
  "lru_unpin k c = c\<lparr>lru_pinnedKeys := lru_pinnedKeys c - {k}\<rparr>"

definition lru_prefetch ::
  "'k \<Rightarrow> 'v \<Rightarrow> ('k, 'v) EnhancedLRUCache \<Rightarrow> ('k, 'v) EnhancedLRUCache option" where
  "lru_prefetch k v c =
     (case lookup_find k (lru_entries c) of
        None \<Rightarrow>
          map_option
            (\<lambda>c1. (lru_emplace_front k v c1)\<lparr>lru_stats := count_prefetch (lru_stats c1)\<rparr>)
            (if length (lru_entries c) < lru_maxCapacity c then Some c else lru_evict c)
      | Some i \<Rightarrow>
          Some (c\<lparr>lru_entries :=
                    moveToFront i ((lru_entries c)[i := (lru_entries c ! i)\<lparr>val := v\<rparr>]),
                  lru_stats := count_prefetch (lru_stats c)\<rparr>))"

definition lru_getKeys :: "('k, 'v) EnhancedLRUCache \<Rightarrow> 'k list" where
  "lru_getKeys c = map key (lru_entries c)"


subsection \<open>LFUCache\<close>

text \<open>
  \<^verbatim>\<open>frequencies\<close> is a \<^verbatim>\<open>std::unordered_map\<close> from a frequency to the list of
  keys at that frequency, in insertion order. A bucket that has been created stays in
  the table when its list becomes empty (\<open>Some []\<close>); \<open>None\<close> is a frequency the
  table has no node for. \<^verbatim>\<open>frequencies[f]\<close> creates the node when it is missing.
\<close>

record ('k, 'v) LFUCache =
  lfu_maxCapacity :: nat
  minFrequency :: nat
  frequencies :: "(nat, 'k list) fmap"
  keyToEntry :: "('k, ('k, 'v) CacheEntry) fmap"
  keyToFreq :: "('k, nat) fmap"
  lfu_pinnedKeys :: "'k set"
  lfu_stats :: CacheStatistics

definition lfu_new :: "nat \<Rightarrow> ('k, 'v) LFUCache" where
  "lfu_new capacity = \<lparr>lfu_maxCapacity = capacity, minFrequency = 1, frequencies = fmempty,
     keyToEntry = fmempty, keyToFreq = fmempty, lfu_pinnedKeys = {},
     lfu_stats = new_statistics\<rparr>"

definition bucket :: "(nat, 'k list) fmap \<Rightarrow> nat \<Rightarrow> 'k list" where
  "bucket fm f = (case fmlookup fm f of Some keyList \<Rightarrow> keyList | None \<Rightarrow> [])"

text \<open>
  \<^verbatim>\<open>evict\<close> walks the hash table from the node \<^verbatim>\<open>frequencies.find(minFrequency)\<close>
  to \<^verbatim>\<open>end()\<close> with \<^verbatim>\<open>++freqIt\<close>. The order in which an unordered map yields
  its nodes is the container's own, so the frequencies of the nodes that follow the
  found one are an argument \<open>rest\<close> of the model. \<open>lfu_scan\<close> is the double loop
  over the visited buckets: the first key outside \<^verbatim>\<open>pinnedKeys\<close> is erased.
\<close>

fun lfu_scan :: "nat list \<Rightarrow> ('k, 'v) LFUCache \<Rightarrow> ('k, 'v) LFUCache" where
  "lfu_scan [] c = c"
| "lfu_scan (f # fs) c =
     (case fmlookup (frequencies c) f of
        None \<Rightarrow> lfu_scan fs c
      | Some keyList \<Rightarrow>
          (case find (\<lambda>k. k \<notin> lfu_pinnedKeys c) keyList of
             None \<Rightarrow> lfu_scan fs c
           | Some keyToRemove \<Rightarrow>
               (let keyList1 = remove1 keyToRemove keyList
                in c\<lparr>frequencies := fmupd f keyList1 (frequencies c),
                     keyToEntry := fmdrop keyToRemove (keyToEntry c),
                     keyToFreq := fmdrop keyToRemove (keyToFreq c),
                     lfu_stats := count_eviction (lfu_stats c),
                     minFrequency := (if keyList1 = [] \<and> f = minFrequency c
                                      then minFrequency c + 1 else minFrequency c)\<rparr>)))"

definition lfu_evict :: "nat list \<Rightarrow> ('k, 'v) LFUCache \<Rightarrow> ('k, 'v) LFUCache" where
  "lfu_evict rest c =
     (if fmlookup (frequencies c) (minFrequency c) = None then c
      else lfu_scan (minFrequency c # rest) c)"

definition updateFrequency :: "'k \<Rightarrow> ('k, 'v) LFUCache \<Rightarrow> ('k, 'v) LFUCache" where
  "updateFrequency k c =
     (let oldFreq = (case fmlookup (keyToFreq c) k of Some f \<Rightarrow> f | None \<Rightarrow> 0);
          newFreq = oldFreq + 1;
          oldList = removeAll k (bucket (frequencies c) oldFreq);
          fm1 = fmupd oldFreq oldList (frequencies c);
          minFreq1 = (if oldList = [] \<and> oldFreq = minFrequency c
                      then minFrequency c + 1 else minFrequency c)
      in c\<lparr>frequencies := fmupd newFreq (bucket fm1 newFreq @ [k]) fm1,
           keyToFreq := fmupd k newFreq (keyToFreq c),
           minFrequency := minFreq1\<rparr>)"

definition lfu_insert :: "'k \<Rightarrow> 'v \<Rightarrow> ('k, 'v) LFUCache \<Rightarrow> ('k, 'v) LFUCache" where
  "lfu_insert k v c =
     c\<lparr>keyToEntry := fmupd k (new_entry k v) (keyToEntry c),
       keyToFreq := fmupd k 1 (keyToFreq c),
       frequencies := fmupd 1 (bucket (frequencies c) 1 @ [k]) (frequencies c),
       minFrequency := 1\<rparr>"

definition lfu_size :: "('k, 'v) LFUCache \<Rightarrow> nat" where
  "lfu_size c = fcard (fmdom (keyToEntry c))"

definition lfu_put :: "nat list \<Rightarrow> 'k \<Rightarrow> 'v \<Rightarrow> ('k, 'v) LFUCache \<Rightarrow> ('k, 'v) LFUCache" where
  "lfu_put rest k v c =
     (if lfu_maxCapacity c = 0 then c
      else case fmlookup (keyToEntry c) k of
        Some e \<Rightarrow>
          updateFrequency k (c\<lparr>keyToEntry := fmupd k (e\<lparr>val := v\<rparr>) (keyToEntry c)\<rparr>)
      | None \<Rightarrow>
          lfu_insert k v (if lfu_size c \<ge> lfu_maxCapacity c then lfu_evict rest c else c))"

definition lfu_get ::
  "'k \<Rightarrow> ('k, 'v) LFUCache \<Rightarrow> (cache_error + 'v) \<times> ('k, 'v) LFUCache" where
  "lfu_get k c =
     (case fmlookup (keyToEntry c) k of
        None \<Rightarrow> (Inl KeyNotFound, c\<lparr>lfu_stats := count_miss (lfu_stats c)\<rparr>)
      | Some e \<Rightarrow>
          (let e1 = e\<lparr>accessCount := accessCount e + 1\<rparr>;
               c1 = updateFrequency k (c\<lparr>keyToEntry := fmupd k e1 (keyToEntry c)\<rparr>)
           in (Inr (val e1), c1\<lparr>lfu_stats := count_hit (lfu_stats c1)\<rparr>)))"

definition lfu_contains :: "'k \<Rightarrow> ('k, 'v) LFUCache \<Rightarrow> bool" where
  "lfu_contains k c = (fmlookup (keyToEntry c) k \<noteq> None)"

definition lfu_remove :: "'k \<Rightarrow> ('k, 'v) LFUCache \<Rightarrow> ('k, 'v) LFUCache" where
  "lfu_remove k c =
     (case fmlookup (keyToEntry c) k of
        None \<Rightarrow> c
      | Some e \<Rightarrow>
          (let freq = (case fmlookup (keyToFreq c) k of Some f \<Rightarrow> f | None \<Rightarrow> 0);
               freqList = removeAll k (bucket (frequencies c) freq)
           in c\<lparr>frequencies := fmupd freq freqList (frequencies c),
                minFrequency := (if freqList = [] \<and> freq = minFrequency c
                                 then minFrequency c + 1 else minFrequency c),
                keyToEntry := fmdrop k (keyToEntry c),
                keyToFreq := fmdrop k (keyToFreq c),
                lfu_pinnedKeys := lfu_pinnedKeys c - {k}\<rparr>))"

definition lfu_clear :: "('k, 'v) LFUCache \<Rightarrow> ('k, 'v) LFUCache" where
  "lfu_clear c = c\<lparr>keyToEntry := fmempty, keyToFreq := fmempty, frequencies := fmempty,
     lfu_pinnedKeys := {}, minFrequency := 1\<rparr>"

definition lfu_getStatistics :: "('k, 'v) LFUCache \<Rightarrow> CacheStatistics" where
  "lfu_getStatistics c = (lfu_stats c)\<lparr>pinnedItems := card (lfu_pinnedKeys c)\<rparr>"

definition lfu_resetStatistics :: "('k, 'v) LFUCache \<Rightarrow> ('k, 'v) LFUCache" where
  "lfu_resetStatistics c = c\<lparr>lfu_stats := new_statistics\<rparr>"

definition lfu_pin :: "'k \<Rightarrow> ('k, 'v) LFUCache \<Rightarrow> ('k, 'v) LFUCache" where
  "lfu_pin k c =
     (if fmlookup (keyToEntry c) k \<noteq> None
      then c\<lparr>lfu_pinnedKeys := insert k (lfu_pinnedKeys c)\<rparr> else c)"

definition lfu_unpin :: "'k \<Rightarrow> ('k, 'v) LFUCache \<Rightarrow> ('k, 'v) LFUCache" where
  "lfu_unpin k c = c\<lparr>lfu_pinnedKeys := lfu_pinnedKeys c - {k}\<rparr>"

definition lfu_prefetch ::
  "nat list \<Rightarrow> 'k \<Rightarrow> 'v \<Rightarrow> ('k, 'v) LFUCache \<Rightarrow> ('k, 'v) LFUCache" where
  "lfu_prefetch rest k v c =
     (case fmlookup (keyToEntry c) k of
        None \<Rightarrow>
          (let c1 = lfu_insert k v
                      (if lfu_size c \<ge> lfu_maxCapacity c then lfu_evict rest c else c)
           in c1\<lparr>lfu_stats := count_prefetch (lfu_stats c1)\<rparr>)
      | Some e \<Rightarrow>
          c\<lparr>keyToEntry := fmupd k (e\<lparr>val := v\<rparr>) (keyToEntry c),
            lfu_stats := count_prefetch (lfu_stats c)\<rparr>)"

subsection \<open>FIFOCache\<close>

text \<open>
  \<^verbatim>\<open>insertionOrder\<close> is the queue, its front first. \<^verbatim>\<open>remove\<close> leaves the key
  in the queue; \<^verbatim>\<open>evict\<close> pops keys until one is resident and not pinned, and the
  keys it skips are not put back.
\<close>

record ('k, 'v) FIFOCache =
  fifo_maxCapacity :: nat
  fifo_insertionOrder :: "'k list"
  fifo_entries :: "('k, ('k, 'v) CacheEntry) fmap"
  fifo_pinnedKeys :: "'k set"
  fifo_stats :: CacheStatistics

definition fifo_new :: "nat \<Rightarrow> ('k, 'v) FIFOCache" where
  "fifo_new capacity = \<lparr>fifo_maxCapacity = capacity, fifo_insertionOrder = [],
     fifo_entries = fmempty, fifo_pinnedKeys = {}, fifo_stats = new_statistics\<rparr>"

function fifo_evict :: "('k, 'v) FIFOCache \<Rightarrow> ('k, 'v) FIFOCache" where
  "fifo_evict c =
     (case fifo_insertionOrder c of
        [] \<Rightarrow> c
      | oldestKey # queue \<Rightarrow>
          (let c1 = c\<lparr>fifo_insertionOrder := queue\<rparr>
           in if fmlookup (fifo_entries c1) oldestKey \<noteq> None
                 \<and> oldestKey \<notin> fifo_pinnedKeys c1
              then c1\<lparr>fifo_entries := fmdrop oldestKey (fifo_entries c1),
                      fifo_stats := count_eviction (fifo_stats c1)\<rparr>
              else fifo_evict c1))"
  by pat_completeness auto
termination
  by (relation "measure (\<lambda>c. length (fifo_insertionOrder c))") auto

declare fifo_evict.simps [simp del]

definition fifo_size :: "('k, 'v) FIFOCache \<Rightarrow> nat" where
  "fifo_size c = fcard (fmdom (fifo_entries c))"

definition fifo_insert :: "'k \<Rightarrow> 'v \<Rightarrow> ('k, 'v) FIFOCache \<Rightarrow> ('k, 'v) FIFOCache" where
  "fifo_insert k v c =
     c\<lparr>fifo_entries := fmupd k (new_entry k v) (fifo_entries c),
       fifo_insertionOrder := fifo_insertionOrder c @ [k]\<rparr>"

definition fifo_put :: "'k \<Rightarrow> 'v \<Rightarrow> ('k, 'v) FIFOCache \<Rightarrow> ('k, 'v) FIFOCache" where
  "fifo_put k v c =
     (case fmlookup (fifo_entries c) k of
        Some e \<Rightarrow> c\<lparr>fifo_entries := fmupd k (e\<lparr>val := v\<rparr>) (fifo_entries c)\<rparr>
      | None \<Rightarrow>
          fifo_insert k v (if fifo_size c \<ge> fifo_maxCapacity c then fifo_evict c else c))"

definition fifo_get ::
  "'k \<Rightarrow> ('k, 'v) FIFOCache \<Rightarrow> (cache_error + 'v) \<times> ('k, 'v) FIFOCache" where
  "fifo_get k c =
     (case fmlookup (fifo_entries c) k of
        None \<Rightarrow> (Inl KeyNotFound, c\<lparr>fifo_stats := count_miss (fifo_stats c)\<rparr>)
      | Some e \<Rightarrow>
          (let e1 = e\<lparr>accessCount := accessCount e + 1\<rparr>
           in (Inr (val e1),
               c\<lparr>fifo_entries := fmupd k e1 (fifo_entries c),
                 fifo_stats := count_hit (fifo_stats c)\<rparr>)))"

definition fifo_contains :: "'k \<Rightarrow> ('k, 'v) FIFOCache \<Rightarrow> bool" where
  "fifo_contains k c = (fmlookup (fifo_entries c) k \<noteq> None)"

definition fifo_remove :: "'k \<Rightarrow> ('k, 'v) FIFOCache \<Rightarrow> ('k, 'v) FIFOCache" where
  "fifo_remove k c =
     (case fmlookup (fifo_entries c) k of
        None \<Rightarrow> c
      | Some e \<Rightarrow> c\<lparr>fifo_entries := fmdrop k (fifo_entries c),
                     fifo_pinnedKeys := fifo_pinnedKeys c - {k}\<rparr>)"

definition fifo_clear :: "('k, 'v) FIFOCache \<Rightarrow> ('k, 'v) FIFOCache" where
  "fifo_clear c = c\<lparr>fifo_entries := fmempty, fifo_pinnedKeys := {},
     fifo_insertionOrder := []\<rparr>"

definition fifo_getStatistics :: "('k, 'v) FIFOCache \<Rightarrow> CacheStatistics" where
  "fifo_getStatistics c = (fifo_stats c)\<lparr>pinnedItems := card (fifo_pinnedKeys c)\<rparr>"

definition fifo_resetStatistics :: "('k, 'v) FIFOCache \<Rightarrow> ('k, 'v) FIFOCache" where
  "fifo_resetStatistics c = c\<lparr>fifo_stats := new_statistics\<rparr>"

definition fifo_pin :: "'k \<Rightarrow> ('k, 'v) FIFOCache \<Rightarrow> ('k, 'v) FIFOCache" where
  "fifo_pin k c =
     (if fmlookup (fifo_entries c) k \<noteq> None
      then c\<lparr>fifo_pinnedKeys := insert k (fifo_pinnedKeys c)\<rparr> else c)"

definition fifo_unpin :: "'k \<Rightarrow> ('k, 'v) FIFOCache \<Rightarrow> ('k, 'v) FIFOCache" where
  "fifo_unpin k c = c\<lparr>fifo_pinnedKeys := fifo_pinnedKeys c - {k}\<rparr>"

definition fifo_prefetch :: "'k \<Rightarrow> 'v \<Rightarrow> ('k, 'v) FIFOCache \<Rightarrow> ('k, 'v) FIFOCache" where
  "fifo_prefetch k v c =
     (case fmlookup (fifo_entries c) k of
        None \<Rightarrow>
          (let c1 = fifo_insert k v
                      (if fifo_size c \<ge> fifo_maxCapacity c then fifo_evict c else c)
           in c1\<lparr>fifo_stats := count_prefetch (fifo_stats c1)\<rparr>)
      | Some e \<Rightarrow>
          c\<lparr>fifo_entries := fmupd k (e\<lparr>val := v\<rparr>) (fifo_entries c),
            fifo_stats := count_prefetch (fifo_stats c)\<rparr>)"

subsection \<open>LIFOCache\<close>

text \<open>
  \<^verbatim>\<open>insertionOrder\<close> is the stack, its top first. The two loops that rebuild the
  stack without a key (in \<^verbatim>\<open>put\<close> and \<^verbatim>\<open>remove\<close>) and the two loops of
  \<^verbatim>\<open>evict\<close> are written out: popping everything onto a second stack reverses the
  order, pushing it back restores it.
\<close>

record ('k, 'v) LIFOCache =
  lifo_maxCapacity :: nat
  lifo_insertionOrder :: "'k list"
  lifo_entries :: "('k, ('k, 'v) CacheEntry) fmap"
  lifo_pinnedKeys :: "'k set"
  lifo_stats :: CacheStatistics

definition lifo_new :: "nat \<Rightarrow> ('k, 'v) LIFOCache" where
  "lifo_new capacity = \<lparr>lifo_maxCapacity = capacity, lifo_insertionOrder = [],
     lifo_entries = fmempty, lifo_pinnedKeys = {}, lifo_stats = new_statistics\<rparr>"

fun pop_all_but :: "'k \<Rightarrow> 'k list \<Rightarrow> 'k list \<Rightarrow> 'k list" where
  "pop_all_but k [] newStack = newStack"
| "pop_all_but k (topKey # stack) newStack =
     pop_all_but k stack (if topKey \<noteq> k then topKey # newStack else newStack)"

fun push_back :: "'k list \<Rightarrow> 'k list \<Rightarrow> 'k list" where
  "push_back [] stack = stack"
| "push_back (topKey # tempStack) stack = push_back tempStack (topKey # stack)"

definition stack_without :: "'k \<Rightarrow> 'k list \<Rightarrow> 'k list" where
  "stack_without k stack = push_back (pop_all_but k stack []) []"

fun lifo_find_victim ::
  "('k \<Rightarrow> bool) \<Rightarrow> 'k list \<Rightarrow> 'k list \<Rightarrow> 'k option \<times> 'k list \<times> 'k list" where
  "lifo_find_victim evictable [] tempStack = (None, [], tempStack)"
| "lifo_find_victim evictable (topKey # stack) tempStack =
     (if evictable topKey then (Some topKey, stack, tempStack)
      else lifo_find_victim evictable stack (topKey # tempStack))"

definition lifo_evict :: "('k, 'v) LIFOCache \<Rightarrow> ('k, 'v) LIFOCache" where
  "lifo_evict c =
     (case lifo_find_victim
             (\<lambda>k. fmlookup (lifo_entries c) k \<noteq> None \<and> k \<notin> lifo_pinnedKeys c)
             (lifo_insertionOrder c) [] of
        (found, stack, tempStack) \<Rightarrow>
          (let c1 = c\<lparr>lifo_insertionOrder := push_back tempStack stack\<rparr>
           in case found of
                Some keyToRemove \<Rightarrow>
                  c1\<lparr>lifo_entries := fmdrop keyToRemove (lifo_entries c1),
                     lifo_stats := count_eviction (lifo_stats c1)\<rparr>
              | None \<Rightarrow> c1))"

definition lifo_size :: "('k, 'v) LIFOCache \<Rightarrow> nat" where
  "lifo_size c = fcard (fmdom (lifo_entries c))"

definition lifo_insert :: "'k \<Rightarrow> 'v \<Rightarrow> ('k, 'v) LIFOCache \<Rightarrow> ('k, 'v) LIFOCache" where
  "lifo_insert k v c =
     c\<lparr>lifo_entries := fmupd k (new_entry k v) (lifo_entries c),
       lifo_insertionOrder := k # lifo_insertionOrder c\<rparr>"

definition lifo_put :: "'k \<Rightarrow> 'v \<Rightarrow> ('k, 'v) LIFOCache \<Rightarrow> ('k, 'v) LIFOCache" where
  "lifo_put k v c =
     (case fmlookup (lifo_entries c) k of
        Some e \<Rightarrow>
          c\<lparr>lifo_entries := fmupd k (e\<lparr>val := v\<rparr>) (lifo_entries c),
            lifo_insertionOrder := k # stack_without k (lifo_insertionOrder c)\<rparr>
      | None \<Rightarrow>
          lifo_insert k v (if lifo_size c \<ge> lifo_maxCapacity c then lifo_evict c else c))"

definition lifo_get ::
  "'k \<Rightarrow> ('k, 'v) LIFOCache \<Rightarrow> (cache_error + 'v) \<times> ('k, 'v) LIFOCache" where
  "lifo_get k c =
     (case fmlookup (lifo_entries c) k of
        None \<Rightarrow> (Inl KeyNotFound, c\<lparr>lifo_stats := count_miss (lifo_stats c)\<rparr>)
      | Some e \<Rightarrow>
          (let e1 = e\<lparr>accessCount := accessCount e + 1\<rparr>
           in (Inr (val e1),
               c\<lparr>lifo_entries := fmupd k e1 (lifo_entries c),
                 lifo_stats := count_hit (lifo_stats c)\<rparr>)))"

definition lifo_contains :: "'k \<Rightarrow> ('k, 'v) LIFOCache \<Rightarrow> bool" where
  "lifo_contains k c = (fmlookup (lifo_entries c) k \<noteq> None)"

definition lifo_remove :: "'k \<Rightarrow> ('k, 'v) LIFOCache \<Rightarrow> ('k, 'v) LIFOCache" where
  "lifo_remove k c =
     (case fmlookup (lifo_entries c) k of
        None \<Rightarrow> c
      | Some e \<Rightarrow> c\<lparr>lifo_entries := fmdrop k (lifo_entries c),
                     lifo_pinnedKeys := lifo_pinnedKeys c - {k},
                     lifo_insertionOrder := stack_without k (lifo_insertionOrder c)\<rparr>)"

definition lifo_clear :: "('k, 'v) LIFOCache \<Rightarrow> ('k, 'v) LIFOCache" where
  "lifo_clear c = c\<lparr>lifo_entries := fmempty, lifo_pinnedKeys := {},
     lifo_insertionOrder := []\<rparr>"

definition lifo_getStatistics :: "('k, 'v) LIFOCache \<Rightarrow> CacheStatistics" where
  "lifo_getStatistics c = (lifo_stats c)\<lparr>pinnedItems := card (lifo_pinnedKeys c)\<rparr>"

definition lifo_resetStatistics :: "('k, 'v) LIFOCache \<Rightarrow> ('k, 'v) LIFOCache" where
  "lifo_resetStatistics c = c\<lparr>lifo_stats := new_statistics\<rparr>"

definition lifo_pin :: "'k \<Rightarrow> ('k, 'v) LIFOCache \<Rightarrow> ('k, 'v) LIFOCache" where
  "lifo_pin k c =
     (if fmlookup (lifo_entries c) k \<noteq> None
      then c\<lparr>lifo_pinnedKeys := insert k (lifo_pinnedKeys c)\<rparr> else c)"

definition lifo_unpin :: "'k \<Rightarrow> ('k, 'v) LIFOCache \<Rightarrow> ('k, 'v) LIFOCache" where
  "lifo_unpin k c = c\<lparr>lifo_pinnedKeys := lifo_pinnedKeys c - {k}\<rparr>"

definition lifo_prefetch :: "'k \<Rightarrow> 'v \<Rightarrow> ('k, 'v) LIFOCache \<Rightarrow> ('k, 'v) LIFOCache" where
  "lifo_prefetch k v c =
     (case fmlookup (lifo_entries c) k of
        None \<Rightarrow>
          (let c1 = lifo_insert k v
                      (if lifo_size c \<ge> lifo_maxCapacity c then lifo_evict c else c)
           in c1\<lparr>lifo_stats := count_prefetch (lifo_stats c1)\<rparr>)
      | Some e \<Rightarrow>
          c\<lparr>lifo_entries := fmupd k (e\<lparr>val := v\<rparr>) (lifo_entries c),
            lifo_stats := count_prefetch (lifo_stats c)\<rparr>)"


subsection \<open>CacheInterface and CacheManager\<close>

datatype CachePolicy = LRU | LFU | FIFO | LIFO

text \<open>
  The four classes behind the virtual interface. Only the LRU operations that may call
  \<^verbatim>\<open>evict\<close> can fail to return; the dispatch gives every mutating operation the
  result type \<open>option\<close>. The argument \<open>rest\<close> is the iteration order handed to
  \<open>lfu_evict\<close> and is ignored by the other policies.
\<close>

datatype ('k, 'v) CacheInterface =
  ImplLRU "('k, 'v) EnhancedLRUCache"
| ImplLFU "('k, 'v) LFUCache"
| ImplFIFO "('k, 'v) FIFOCache"
| ImplLIFO "('k, 'v) LIFOCache"

fun cache_put ::
  "nat list \<Rightarrow> 'k \<Rightarrow> 'v \<Rightarrow> ('k, 'v) CacheInterface \<Rightarrow> ('k, 'v) CacheInterface option" where
  "cache_put rest k v (ImplLRU c) = map_option ImplLRU (lru_put k v c)"
| "cache_put rest k v (ImplLFU c) = Some (ImplLFU (lfu_put rest k v c))"
| "cache_put rest k v (ImplFIFO c) = Some (ImplFIFO (fifo_put k v c))"
| "cache_put rest k v (ImplLIFO c) = Some (ImplLIFO (lifo_put k v c))"

fun cache_get ::
  "'k \<Rightarrow> ('k, 'v) CacheInterface \<Rightarrow> (cache_error + 'v) \<times> ('k, 'v) CacheInterface" where
  "cache_get k (ImplLRU c) = apsnd ImplLRU (lru_get k c)"
| "cache_get k (ImplLFU c) = apsnd ImplLFU (lfu_get k c)"
| "cache_get k (ImplFIFO c) = apsnd ImplFIFO (fifo_get k c)"
| "cache_get k (ImplLIFO c) = apsnd ImplLIFO (lifo_get k c)"

fun cache_contains :: "'k \<Rightarrow> ('k, 'v) CacheInterface \<Rightarrow> bool" where
  "cache_contains k (ImplLRU c) = lru_contains k c"
| "cache_contains k (ImplLFU c) = lfu_contains k c"
| "cache_contains k (ImplFIFO c) = fifo_contains k c"
| "cache_contains k (ImplLIFO c) = lifo_contains k c"

fun cache_remove :: "'k \<Rightarrow> ('k, 'v) CacheInterface \<Rightarrow> ('k, 'v) CacheInterface" where
  "cache_remove k (ImplLRU c) = ImplLRU (lru_remove k c)"
| "cache_remove k (ImplLFU c) = ImplLFU (lfu_remove k c)"
| "cache_remove k (ImplFIFO c) = ImplFIFO (fifo_remove k c)"
| "cache_remove k (ImplLIFO c) = ImplLIFO (lifo_remove k c)"

fun cache_clear :: "('k, 'v) CacheInterface \<Rightarrow> ('k, 'v) CacheInterface" where
  "cache_clear (ImplLRU c) = ImplLRU (lru_clear c)"
| "cache_clear (ImplLFU c) = ImplLFU (lfu_clear c)"
| "cache_clear (ImplFIFO c) = ImplFIFO (fifo_clear c)"
| "cache_clear (ImplLIFO c) = ImplLIFO (lifo_clear c)"

fun cache_size :: "('k, 'v) CacheInterface \<Rightarrow> nat" where
  "cache_size (ImplLRU c) = lru_size c"
| "cache_size (ImplLFU c) = lfu_size c"
| "cache_size (ImplFIFO c) = fifo_size c"
| "cache_size (ImplLIFO c) = lifo_size c"


fun cache_getStatistics :: "('k, 'v) CacheInterface \<Rightarrow> CacheStatistics" where
  "cache_getStatistics (ImplLRU c) = lru_getStatistics c"
| "cache_getStatistics (ImplLFU c) = lfu_getStatistics c"
| "cache_getStatistics (ImplFIFO c) = fifo_getStatistics c"
| "cache_getStatistics (ImplLIFO c) = lifo_getStatistics c"

fun cache_resetStatistics :: "('k, 'v) CacheInterface \<Rightarrow> ('k, 'v) CacheInterface" where
  "cache_resetStatistics (ImplLRU c) = ImplLRU (lru_resetStatistics c)"
| "cache_resetStatistics (ImplLFU c) = ImplLFU (lfu_resetStatistics c)"
| "cache_resetStatistics (ImplFIFO c) = ImplFIFO (fifo_resetStatistics c)"
| "cache_resetStatistics (ImplLIFO c) = ImplLIFO (lifo_resetStatistics c)"

fun cache_pin :: "'k \<Rightarrow> ('k, 'v) CacheInterface \<Rightarrow> ('k, 'v) CacheInterface" where
  "cache_pin k (ImplLRU c) = ImplLRU (lru_pin k c)"
| "cache_pin k (ImplLFU c) = ImplLFU (lfu_pin k c)"
| "cache_pin k (ImplFIFO c) = ImplFIFO (fifo_pin k c)"
| "cache_pin k (ImplLIFO c) = ImplLIFO (lifo_pin k c)"

fun cache_unpin :: "'k \<Rightarrow> ('k, 'v) CacheInterface \<Rightarrow> ('k, 'v) CacheInterface" where
  "cache_unpin k (ImplLRU c) = ImplLRU (lru_unpin k c)"
| "cache_unpin k (ImplLFU c) = ImplLFU (lfu_unpin k c)"
| "cache_unpin k (ImplFIFO c) = ImplFIFO (fifo_unpin k c)"
| "cache_unpin k (ImplLIFO c) = ImplLIFO (lifo_unpin k c)"



fun cache_prefetch ::
  "nat list \<Rightarrow> 'k \<Rightarrow> 'v \<Rightarrow> ('k, 'v) CacheInterface \<Rightarrow> ('k, 'v) CacheInterface option" where
  "cache_prefetch rest k v (ImplLRU c) = map_option ImplLRU (lru_prefetch k v c)"
| "cache_prefetch rest k v (ImplLFU c) = Some (ImplLFU (lfu_prefetch rest k v c))"
| "cache_prefetch rest k v (ImplFIFO c) = Some (ImplFIFO (fifo_prefetch k v c))"
| "cache_prefetch rest k v (ImplLIFO c) = Some (ImplLIFO (lifo_prefetch k v c))"

fun cache_new :: "CachePolicy \<Rightarrow> nat \<Rightarrow> ('k, 'v) CacheInterface" where
  "cache_new LRU capacity = ImplLRU (lru_new capacity)"
| "cache_new LFU capacity = ImplLFU (lfu_new capacity)"
| "cache_new FIFO capacity = ImplFIFO (fifo_new capacity)"
| "cache_new LIFO capacity = ImplLIFO (lifo_new capacity)"

record ('k, 'v) CacheManager =
  cacheCapacity :: nat
  currentPolicy :: CachePolicy
  cache :: "('k, 'v) CacheInterface"

definition recreateCache :: "('k, 'v) CacheManager \<Rightarrow> ('k, 'v) CacheManager" where
  "recreateCache m = m\<lparr>cache := cache_new (currentPolicy m) (cacheCapacity m)\<rparr>"

definition manager_new :: "nat \<Rightarrow> CachePolicy \<Rightarrow> ('k, 'v) CacheManager" where
  "manager_new capacity policy =
     \<lparr>cacheCapacity = capacity, currentPolicy = policy, cache = cache_new policy capacity\<rparr>"

definition setPolicy :: "CachePolicy \<Rightarrow> ('k, 'v) CacheManager \<Rightarrow> ('k, 'v) CacheManager" where
  "setPolicy policy m =
     (if currentPolicy m \<noteq> policy then recreateCache (m\<lparr>currentPolicy := policy\<rparr>) else m)"

definition resize :: "nat \<Rightarrow> ('k, 'v) CacheManager \<Rightarrow> ('k, 'v) CacheManager" where
  "resize newCapacity m =
     (if cacheCapacity m \<noteq> newCapacity then recreateCache (m\<lparr>cacheCapacity := newCapacity\<rparr>)
      else m)"

subsection \<open>Operation sequences\<close>

datatype ('k, 'v) cache_op =
  Put 'k 'v | Get 'k | Remove 'k | Clear | Pin 'k | Unpin 'k | Prefetch 'k 'v
| ResetStatistics

text \<open>
  One call on a policy cache. A \<^verbatim>\<open>get\<close> that throws has still updated the
  statistics, so the state after it is kept either way.
\<close>

fun apply_op ::
  "nat list \<Rightarrow> ('k, 'v) cache_op \<Rightarrow> ('k, 'v) CacheInterface \<Rightarrow> ('k, 'v) CacheInterface option"
  where
  "apply_op rest (Put k v) c = cache_put rest k v c"
| "apply_op rest (Get k) c = Some (snd (cache_get k c))"
| "apply_op rest (Remove k) c = Some (cache_remove k c)"
| "apply_op rest Clear c = Some (cache_clear c)"
| "apply_op rest (Pin k) c = Some (cache_pin k c)"
| "apply_op rest (Unpin k) c = Some (cache_unpin k c)"
| "apply_op rest (Prefetch k v) c = cache_prefetch rest k v c"
| "apply_op rest ResetStatistics c = Some (cache_resetStatistics c)"

text \<open>
  A finite sequence of calls; each is paired with the bucket order the LFU table
  shows at that moment. The run is \<open>None\<close> when a call does not return.
\<close>

fun run_ops ::
  "(nat list \<times> ('k, 'v) cache_op) list \<Rightarrow> ('k, 'v) CacheInterface
     \<Rightarrow> ('k, 'v) CacheInterface option" where
  "run_ops [] c = Some c"
| "run_ops ((rest, op) # ops) c =
     (case apply_op rest op c of None \<Rightarrow> None | Some c1 \<Rightarrow> run_ops ops c1)"

subsection \<open>Invariants of a cache without pins\<close>





section \<open>Journal: definitions\<close>

datatype JournalEntryType =
  CREATE_FILE | DELETE_FILE | WRITE_DATA | CREATE_DIR | DELETE_DIR | UPDATE_METADATA

record JournalEntry =
  sequenceNumber :: "64 word"
  entryType :: JournalEntryType
  blocks :: "int list"
  metadata :: "byte list"

record Journal =
  journal_entries :: "JournalEntry list"
  currentSequence :: "64 word"
  inTransaction :: bool



definition logEntry :: "JournalEntry \<Rightarrow> Journal \<Rightarrow> Journal" where
  "logEntry entry j =
     (let seq = currentSequence j + 1;
          newEntry = entry\<lparr>sequenceNumber := seq\<rparr>
      in j\<lparr>currentSequence := seq, journal_entries := journal_entries j @ [newEntry]\<rparr>)"

definition getEntries :: "64 word \<Rightarrow> 64 word \<Rightarrow> Journal \<Rightarrow> JournalEntry list" where
  "getEntries fromSequence toSequence j =
     filter (\<lambda>entry. sequenceNumber entry \<ge> fromSequence \<and> sequenceNumber entry \<le> toSequence)
       (journal_entries j)"

definition beginTransaction :: "Journal \<Rightarrow> Journal" where
  "beginTransaction j = j\<lparr>inTransaction := True\<rparr>"

definition commitTransaction :: "Journal \<Rightarrow> Journal" where
  "commitTransaction j = (if inTransaction j then j\<lparr>inTransaction := False\<rparr> else j)"

definition rollbackTransaction :: "Journal \<Rightarrow> Journal" where
  "rollbackTransaction j = (if inTransaction j then j\<lparr>inTransaction := False\<rparr> else j)"

definition needsRecovery :: "Journal \<Rightarrow> bool" where
  "needsRecovery j = (journal_entries j \<noteq> [] \<and> inTransaction j)"

definition recover :: "Journal \<Rightarrow> Journal" where
  "recover j = j\<lparr>inTransaction := False\<rparr>"



definition journal_size :: "Journal \<Rightarrow> nat" where
  "journal_size j = length (journal_entries j)"

definition getLastSequenceNumber :: "Journal \<Rightarrow> 64 word" where
  "getLastSequenceNumber j = currentSequence j"

section \<open>Pattern matching of \<^verbatim>\<open>find\<close>: definitions\<close>

text \<open>
  \<^verbatim>\<open>std::string::find\<close> of a pattern, from position \<open>pos\<close>: the first position
  at which the pattern occurs, \<open>None\<close> for \<^verbatim>\<open>npos\<close>.
\<close>

function string_find :: "string \<Rightarrow> string \<Rightarrow> nat \<Rightarrow> nat option" where
  "string_find s pattern pos =
     (if pos + length pattern \<le> length s
      then (if take (length pattern) (drop pos s) = pattern then Some pos
            else string_find s pattern (pos + 1))
      else None)"
  by pat_completeness auto
termination
  by (relation "measure (\<lambda>(s, pattern, pos). length s + 1 - pos)") auto

declare string_find.simps [simp del]

text \<open>The trailing loop of the glob branch: skip the \<^verbatim>\<open>*\<close> left in the pattern.\<close>

function skip_stars :: "string \<Rightarrow> nat \<Rightarrow> nat" where
  "skip_stars pattern patternPos =
     (if patternPos < length pattern \<and> pattern ! patternPos = CHR ''*''
      then skip_stars pattern (patternPos + 1) else patternPos)"
  by pat_completeness auto
termination
  by (relation "measure (\<lambda>(pattern, patternPos). length pattern - patternPos)") auto

declare skip_stars.simps [simp del]

text \<open>
  The main loop of the glob branch. \<^verbatim>\<open>starIdx\<close> is \<open>None\<close> for \<^verbatim>\<open>npos\<close>. The
  branches are tested in the order of the source: a literal or \<^verbatim>\<open>?\<close> match
  first, then \<^verbatim>\<open>*\<close>, then the return to the last \<^verbatim>\<open>*\<close>.
\<close>

function glob_loop :: "string \<Rightarrow> string \<Rightarrow> nat \<Rightarrow> nat \<Rightarrow> nat option \<Rightarrow> nat \<Rightarrow> bool" where
  "glob_loop filename pattern patternPos filenamePos starIdx match =
     (if filenamePos < length filename
      then (if patternPos < length pattern
               \<and> (pattern ! patternPos = filename ! filenamePos
                    \<or> pattern ! patternPos = CHR ''?'')
            then glob_loop filename pattern (patternPos + 1) (filenamePos + 1) starIdx match
            else if patternPos < length pattern \<and> pattern ! patternPos = CHR ''*''
            then glob_loop filename pattern (patternPos + 1) filenamePos
                   (Some patternPos) filenamePos
            else (case starIdx of
                    Some si \<Rightarrow> glob_loop filename pattern (si + 1) (match + 1) starIdx (match + 1)
                  | None \<Rightarrow> False))
      else skip_stars pattern patternPos = length pattern)"
  by pat_completeness auto
termination
  by (relation "measures
        [\<lambda>(filename, pattern, patternPos, filenamePos, starIdx, match).
            length filename - min match filenamePos,
         \<lambda>(filename, pattern, patternPos, filenamePos, starIdx, match).
            length filename - filenamePos,
         \<lambda>(filename, pattern, patternPos, filenamePos, starIdx, match).
            length pattern - patternPos]") auto

declare glob_loop.simps [simp del]

definition matchesPattern :: "string \<Rightarrow> string \<Rightarrow> bool" where
  "matchesPattern filename pattern =
     (if CHR ''*'' \<in> set pattern \<or> CHR ''?'' \<in> set pattern
      then glob_loop filename pattern 0 0 None 0
      else string_find filename pattern 0 \<noteq> None)"


section \<open>Filesystem coordinator: definitions\<close>

subsection \<open>The host filesystem and the authentication manager\<close>

text \<open>
  The coordinator works on the host filesystem through \<^verbatim>\<open>stat\<close>,
  \<^verbatim>\<open>_mkdir\<close>, \<^verbatim>\<open>_findfirst\<close>/\<^verbatim>\<open>_findnext\<close>, \<^verbatim>\<open>_chmod\<close>,
  \<^verbatim>\<open>remove\<close> and file streams. These calls are the environment of the code, so
  they are a parameter of the model: a record of functions over a host state \<open>'h\<close>.
  Paths are the strings handed to the coordinator; the prefix \<^verbatim>\<open>rootPath + "/"\<close>
  that every call adds is left implicit.
\<close>

record host_stat =
  st_size :: nat
  st_isdir :: bool
  st_mode :: "32 word"

record FileMetadata =
  meta_name :: string
  meta_size :: nat
  isDirectory :: bool
  permissions :: "32 word"
  owner :: string
  group :: string

record 'h host_ops =
  h_stat :: "'h \<Rightarrow> string \<Rightarrow> host_stat option"
  h_mkdir :: "'h \<Rightarrow> string \<Rightarrow> bool \<times> 'h"
  h_list :: "'h \<Rightarrow> string \<Rightarrow> string list"
  h_chmod :: "'h \<Rightarrow> string \<Rightarrow> 32 word \<Rightarrow> 'h option"
  h_remove :: "'h \<Rightarrow> string \<Rightarrow> bool \<times> 'h"
  h_read :: "'h \<Rightarrow> string \<Rightarrow> string option"
  h_create :: "'h \<Rightarrow> string \<Rightarrow> 'h option"
  h_write :: "'h \<Rightarrow> string \<Rightarrow> string \<Rightarrow> 'h"
  h_save_metadata :: "'h \<Rightarrow> (string, FileMetadata) fmap \<Rightarrow> 'h"

record User =
  username :: string
  passwordHash :: string
  isAdmin :: bool

record AuthManager =
  users :: "(string, User) fmap"
  currentUser :: string

definition isLoggedIn :: "AuthManager \<Rightarrow> bool" where
  "isLoggedIn a = (currentUser a \<noteq> [])"

definition auth_isAdmin :: "AuthManager \<Rightarrow> string \<Rightarrow> bool" where
  "auth_isAdmin a name = (case fmlookup (users a) name of Some u \<Rightarrow> isAdmin u | None \<Rightarrow> False)"

subsection \<open>The coordinator\<close>

text \<open>
  \<^verbatim>\<open>avgReadTime\<close> and \<^verbatim>\<open>avgWriteTime\<close> are wall-clock measurements and are
  left out, as are the compression statistics and the backup manager, which none of the
  modelled operations touches. \<open>host\<close> is the state of the host filesystem below
  \<^verbatim>\<open>rootPath\<close>, the metadata sidecar included.
\<close>

record PerformanceStats =
  cacheHits :: nat
  cacheMisses :: nat
  totalReads :: nat
  totalWrites :: nat
  totalFileOperations :: nat

record 'h FileSystem =
  rootPath :: string
  enhancedCache :: "(string, string) CacheManager"
  stats :: PerformanceStats
  authManager :: "AuthManager option"
  fileMetadataMap :: "(string, FileMetadata) fmap"
  host :: 'h

datatype fs_error = FSException string | FileNotFoundException string

definition CACHE_CAPACITY :: nat where
  "CACHE_CAPACITY = 1000"

definition default_FileMetadata :: FileMetadata where
  "default_FileMetadata = \<lparr>meta_name = [], meta_size = 0, isDirectory = False,
     permissions = 0x1A4, owner = [], group = []\<rparr>"

text \<open>
  The octal constants of the source are written in hexadecimal: \<^verbatim>\<open>0644\<close> is
  \<open>0x1A4\<close> and \<^verbatim>\<open>0777\<close> is \<open>0x1FF\<close>.

  An operation returns its value or the exception it throws, together with the state
  it leaves behind: an exception does not undo what was done before the \<^verbatim>\<open>throw\<close>.
\<close>

definition saveMetadata :: "'h host_ops \<Rightarrow> 'h FileSystem \<Rightarrow> 'h FileSystem" where
  "saveMetadata H fs = fs\<lparr>host := h_save_metadata H (host fs) (fileMetadataMap fs)\<rparr>"

definition exists :: "'h host_ops \<Rightarrow> 'h FileSystem \<Rightarrow> string \<Rightarrow> bool" where
  "exists H fs path = (h_stat H (host fs) path \<noteq> None)"

definition basename :: "string \<Rightarrow> string" where
  "basename path = rev (takeWhile (\<lambda>ch. ch \<noteq> CHR ''/'' \<and> ch \<noteq> CHR 0x5C) (rev path))"

text \<open>
  \<^verbatim>\<open>getMetadata\<close> builds the record from \<^verbatim>\<open>stat\<close> alone: \<^verbatim>\<open>owner\<close> and
  \<^verbatim>\<open>group\<close> keep the empty strings of the default constructor.
\<close>

definition getMetadata :: "'h host_ops \<Rightarrow> 'h FileSystem \<Rightarrow> string \<Rightarrow> fs_error + FileMetadata" where
  "getMetadata H fs path =
     (if \<not> exists H fs path then Inl (FileNotFoundException path)
      else case h_stat H (host fs) path of
        None \<Rightarrow> Inl (FSException (''Failed to get file stats: '' @ path))
      | Some fileStats \<Rightarrow>
          Inr (default_FileMetadata\<lparr>meta_name := basename path,
                 meta_size := st_size fileStats,
                 isDirectory := st_isdir fileStats,
                 permissions := st_mode fileStats AND 0x1FF\<rparr>))"

definition getFileInfo :: "'h host_ops \<Rightarrow> 'h FileSystem \<Rightarrow> string \<Rightarrow> fs_error + FileMetadata" where
  "getFileInfo H fs path = getMetadata H fs path"

text \<open>
  The two checks that open \<^verbatim>\<open>writeFile\<close>, \<^verbatim>\<open>readFile\<close> and
  \<^verbatim>\<open>deleteFile\<close>: a session must be logged in, and the user must own the file or be
  an administrator. Both are skipped when the coordinator has no authentication manager.
\<close>

definition check_login :: "'h FileSystem \<Rightarrow> string \<Rightarrow> fs_error option" where
  "check_login fs what =
     (case authManager fs of
        Some a \<Rightarrow> if \<not> isLoggedIn a
                  then Some (FSException (''Authentication required to '' @ what)) else None
      | None \<Rightarrow> None)"

definition check_owner :: "'h host_ops \<Rightarrow> 'h FileSystem \<Rightarrow> string \<Rightarrow> fs_error option" where
  "check_owner H fs path =
     (case authManager fs of
        Some a \<Rightarrow>
          (case getFileInfo H fs path of
             Inl e \<Rightarrow> Some e
           | Inr meta \<Rightarrow>
               if owner meta \<noteq> currentUser a \<and> \<not> auth_isAdmin a (currentUser a)
               then Some (FSException ''Permission denied: not owner or admin'') else None)
      | None \<Rightarrow> None)"

definition createFile ::
  "'h host_ops \<Rightarrow> string \<Rightarrow> 'h FileSystem \<Rightarrow> (fs_error + bool) \<times> 'h FileSystem" where
  "createFile H path fs =
     (case check_login fs ''create file'' of
        Some e \<Rightarrow> (Inl e, fs)
      | None \<Rightarrow>
          (case h_create H (host fs) path of
             None \<Rightarrow> (Inl (FSException (''Failed to create file: '' @ path)), fs)
           | Some h1 \<Rightarrow>
               (let meta = default_FileMetadata\<lparr>meta_name := path,
                      owner := (case authManager fs of Some a \<Rightarrow> currentUser a
                                | None \<Rightarrow> ''unknown''),
                      permissions := 0x1A4, meta_size := 0, isDirectory := False\<rparr>
                in (Inr True,
                    saveMetadata H
                      (fs\<lparr>host := h1,
                          fileMetadataMap := fmupd path meta (fileMetadataMap fs)\<rparr>)))))"

definition cm_put ::
  "nat list \<Rightarrow> 'k \<Rightarrow> 'v \<Rightarrow> ('k, 'v) CacheManager \<Rightarrow> ('k, 'v) CacheManager option" where
  "cm_put rest k v m = map_option (\<lambda>c. m\<lparr>cache := c\<rparr>) (cache_put rest k v (cache m))"

definition cm_get ::
  "'k \<Rightarrow> ('k, 'v) CacheManager \<Rightarrow> (cache_error + 'v) \<times> ('k, 'v) CacheManager" where
  "cm_get k m = (case cache_get k (cache m) of (r, c) \<Rightarrow> (r, m\<lparr>cache := c\<rparr>))"

definition cm_clear :: "('k, 'v) CacheManager \<Rightarrow> ('k, 'v) CacheManager" where
  "cm_clear m = m\<lparr>cache := cache_clear (cache m)\<rparr>"

definition cm_contains :: "'k \<Rightarrow> ('k, 'v) CacheManager \<Rightarrow> bool" where
  "cm_contains k m = cache_contains k (cache m)"

text \<open>
  \<^verbatim>\<open>writeFile\<close>: opening the output stream truncates the file before the data is
  written. The result is \<open>None\<close> when the cache's \<^verbatim>\<open>put\<close> does not return.
\<close>

definition writeFile ::
  "'h host_ops \<Rightarrow> nat list \<Rightarrow> string \<Rightarrow> string \<Rightarrow> 'h FileSystem
     \<Rightarrow> ((fs_error + bool) \<times> 'h FileSystem) option" where
  "writeFile H rest path data fs =
     (case check_login fs ''write file'' of
        Some e \<Rightarrow> Some (Inl e, fs)
      | None \<Rightarrow>
     (case check_owner H fs path of
        Some e \<Rightarrow> Some (Inl e, fs)
      | None \<Rightarrow>
          if \<not> exists H fs path then Some (Inl (FileNotFoundException path), fs)
          else case h_create H (host fs) path of
            None \<Rightarrow> Some (Inl (FSException (''Failed to open file for writing: '' @ path)), fs)
          | Some h1 \<Rightarrow>
              map_option
                (\<lambda>m. let st = stats fs;
                          meta = (case fmlookup (fileMetadataMap fs) path of
                                    Some mt \<Rightarrow> mt | None \<Rightarrow> default_FileMetadata)
                      in (Inr True,
                          saveMetadata H
                            (fs\<lparr>host := h_write H h1 path data,
                                enhancedCache := m,
                                stats := st\<lparr>totalWrites := totalWrites st + 1,
                                           totalFileOperations := totalFileOperations st + 1\<rparr>,
                                fileMetadataMap :=
                                  fmupd path (meta\<lparr>meta_size := length data\<rparr>)
                                    (fileMetadataMap fs)\<rparr>)))
                (cm_put rest path data (enhancedCache fs))))"

text \<open>
  \<^verbatim>\<open>readFile\<close>: the cache's \<^verbatim>\<open>get\<close> counts its hit or miss before the
  coordinator sees the result, and the coordinator's own counters are updated before the
  file is looked up, so both survive a later exception.
\<close>

definition readFile ::
  "'h host_ops \<Rightarrow> nat list \<Rightarrow> string \<Rightarrow> 'h FileSystem
     \<Rightarrow> ((fs_error + string) \<times> 'h FileSystem) option" where
  "readFile H rest path fs =
     (case check_login fs ''read file'' of
        Some e \<Rightarrow> Some (Inl e, fs)
      | None \<Rightarrow>
     (case check_owner H fs path of
        Some e \<Rightarrow> Some (Inl e, fs)
      | None \<Rightarrow>
          (case cm_get path (enhancedCache fs) of
             (Inr cachedData, m) \<Rightarrow>
               (let st = stats fs
                in Some (Inr cachedData,
                     fs\<lparr>enhancedCache := m,
                        stats := st\<lparr>cacheHits := cacheHits st + 1,
                                   totalReads := totalReads st + 1,
                                   totalFileOperations := totalFileOperations st + 1\<rparr>\<rparr>))
           | (Inl miss, m) \<Rightarrow>
               (let st = stats fs;
                    fs1 = fs\<lparr>enhancedCache := m,
                            stats := st\<lparr>cacheMisses := cacheMisses st + 1,
                                       totalReads := totalReads st + 1,
                                       totalFileOperations := totalFileOperations st + 1\<rparr>\<rparr>
                in if \<not> exists H fs1 path then Some (Inl (FileNotFoundException path), fs1)
                   else case h_read H (host fs1) path of
                     None \<Rightarrow>
                       Some (Inl (FSException (''Failed to open file for reading: '' @ path)),
                             fs1)
                   | Some data \<Rightarrow>
                       map_option (\<lambda>m1. (Inr data, fs1\<lparr>enhancedCache := m1\<rparr>))
                         (cm_put rest path data (enhancedCache fs1))))))"

definition deleteFile ::
  "'h host_ops \<Rightarrow> string \<Rightarrow> 'h FileSystem \<Rightarrow> (fs_error + bool) \<times> 'h FileSystem" where
  "deleteFile H path fs =
     (case check_login fs ''delete file'' of
        Some e \<Rightarrow> (Inl e, fs)
      | None \<Rightarrow>
     (case check_owner H fs path of
        Some e \<Rightarrow> (Inl e, fs)
      | None \<Rightarrow>
          if \<not> exists H fs path then (Inl (FileNotFoundException path), fs)
          else (let fs1 = saveMetadata H
                            (fs\<lparr>enhancedCache := cm_clear (enhancedCache fs),
                                fileMetadataMap := fmdrop path (fileMetadataMap fs)\<rparr>)
                in case h_remove H (host fs1) path of
                     (ok, h1) \<Rightarrow> (Inr ok, fs1\<lparr>host := h1\<rparr>))))"

text \<open>
  \<^verbatim>\<open>createDirectory\<close>, \<^verbatim>\<open>listDirectory\<close> and \<^verbatim>\<open>setPermissions\<close> go to
  the host directly; their bodies contain no test of the authentication manager.
\<close>

definition createDirectory ::
  "'h host_ops \<Rightarrow> string \<Rightarrow> 'h FileSystem \<Rightarrow> (fs_error + bool) \<times> 'h FileSystem" where
  "createDirectory H path fs =
     (case h_mkdir H (host fs) path of (ok, h1) \<Rightarrow> (Inr ok, fs\<lparr>host := h1\<rparr>))"

definition listDirectory ::
  "'h host_ops \<Rightarrow> string \<Rightarrow> 'h FileSystem \<Rightarrow> (fs_error + string list) \<times> 'h FileSystem" where
  "listDirectory H path fs =
     (if \<not> exists H fs path then (Inl (FileNotFoundException path), fs)
      else (Inr (filter (\<lambda>name. name \<noteq> ''.'' \<and> name \<noteq> ''..'') (h_list H (host fs) path)),
            fs))"

definition setPermissions ::
  "'h host_ops \<Rightarrow> string \<Rightarrow> 32 word \<Rightarrow> 'h FileSystem \<Rightarrow> (fs_error + unit) \<times> 'h FileSystem"
  where
  "setPermissions H path perms fs =
     (if \<not> exists H fs path then (Inl (FileNotFoundException path), fs)
      else case h_chmod H (host fs) path perms of
        None \<Rightarrow> (Inl (FSException (''Failed to set permissions: '' @ path)), fs)
      | Some h1 \<Rightarrow>
          (let meta = (case fmlookup (fileMetadataMap fs) path of
                         Some mt \<Rightarrow> mt | None \<Rightarrow> default_FileMetadata)
           in (Inr (),
               saveMetadata H
                 (fs\<lparr>host := h1,
                     fileMetadataMap :=
                       fmupd path (meta\<lparr>permissions := perms\<rparr>) (fileMetadataMap fs)\<rparr>))))"

text \<open>
  \<^verbatim>\<open>findFiles\<close> lists the directory and keeps the names that
  \<^verbatim>\<open>matchesPattern\<close> accepts, with the directory in front unless it is \<^verbatim>\<open>"."\<close>.
\<close>

definition findFiles ::
  "'h host_ops \<Rightarrow> string \<Rightarrow> string \<Rightarrow> 'h FileSystem
     \<Rightarrow> (fs_error + string list) \<times> 'h FileSystem" where
  "findFiles H pattern directory fs =
     (case listDirectory H directory fs of
        (Inl e, fs1) \<Rightarrow> (Inl e, fs1)
      | (Inr files, fs1) \<Rightarrow>
          (Inr (map (\<lambda>file. if directory = ''.'' then file else directory @ ''/'' @ file)
                  (filter (\<lambda>file. matchesPattern file pattern) files)),
           fs1))"

subsection \<open>A small host for concrete runs\<close>

text \<open>
  A host whose state lists the existing paths with a directory flag and, for a file,
  its content. It serves to run the coordinator on concrete inputs.
\<close>

type_synonym simple_host = "(string \<times> bool \<times> string) list"

definition simple_stat :: "simple_host \<Rightarrow> string \<Rightarrow> host_stat option" where
  "simple_stat h path =
     map_option (\<lambda>(d, content). \<lparr>st_size = length content, st_isdir = d, st_mode = 0x1B6\<rparr>)
       (map_of h path)"

definition simple_ops :: "simple_host host_ops" where
  "simple_ops =
     \<lparr>h_stat = simple_stat,
      h_mkdir = (\<lambda>h path. if map_of h path = None then (True, h @ [(path, True, [])])
                           else (False, h)),
      h_list = (\<lambda>h path. [drop (length path + 1) p. (p, _) \<leftarrow> h,
                            take (length path + 1) p = path @ ''/'',
                            CHR ''/'' \<notin> set (drop (length path + 1) p)]),
      h_chmod = (\<lambda>h path perms. if map_of h path = None then None else Some h),
      h_remove = (\<lambda>h path. case map_of h path of
                    Some (False, content) \<Rightarrow> (True, filter (\<lambda>(p, _). p \<noteq> path) h)
                  | _ \<Rightarrow> (False, h)),
      h_read = (\<lambda>h path. case map_of h path of
                    Some (False, content) \<Rightarrow> Some content | _ \<Rightarrow> None),
      h_create = (\<lambda>h path. case map_of h path of
                    Some (True, content) \<Rightarrow> None
                  | _ \<Rightarrow> Some (filter (\<lambda>(p, _). p \<noteq> path) h @ [(path, False, [])])),
      h_write = (\<lambda>h path data. map (\<lambda>(p, d, content).
                    if p = path then (p, d, content @ data) else (p, d, content)) h),
      h_save_metadata = (\<lambda>h table. h)\<rparr>"

definition fs_new :: "string \<Rightarrow> AuthManager option \<Rightarrow> 'h \<Rightarrow> 'h FileSystem" where
  "fs_new rootDir auth h =
     \<lparr>rootPath = rootDir, enhancedCache = manager_new CACHE_CAPACITY LRU,
      stats = \<lparr>cacheHits = 0, cacheMisses = 0, totalReads = 0, totalWrites = 0,
                totalFileOperations = 0\<rparr>,
      authManager = auth, fileMetadataMap = fmempty, host = h\<rparr>"

definition auth_example :: "string \<Rightarrow> AuthManager" where
  "auth_example current =
     \<lparr>users = fmupd ''admin'' \<lparr>username = ''admin'', passwordHash = ''h'', isAdmin = True\<rparr> fmempty,
      currentUser = current\<rparr>"

text \<open>A coordinator with an administrator logged in and two cached files.\<close>

definition fs_cached_example :: "simple_host FileSystem" where
  "fs_cached_example =
     (fs_new ''root'' (Some (auth_example ''admin''))
        [(''p'', False, ''x''), (''q'', False, ''y'')])
     \<lparr>enhancedCache :=
        \<lparr>cacheCapacity = CACHE_CAPACITY, currentPolicy = LRU,
         cache = ImplLRU ((lru_new CACHE_CAPACITY)
                   \<lparr>lru_entries := [new_entry ''q'' ''y'', new_entry ''p'' ''x'']\<rparr>)\<rparr>\<rparr>"

section \<open>Codec: round trip\<close>

lemma rd32_le32: "rd32 (le32 w) = w"
  unfolding rd32_def le32_def
  apply (rule bit_word_eqI)
  apply (auto simp: bit_simps)
  apply (rule ccontr)
  apply (simp add: not_less)
  done

lemma rd16_le16: "rd16 (le16 w) = w"
  unfolding rd16_def le16_def
  apply (rule bit_word_eqI)
  apply (auto simp: bit_simps)
  done

lemma length_le32: "length (le32 w) = 4"
  by (simp add: le32_def)

lemma length_le16: "length (le16 w) = 2"
  by (simp add: le16_def)

lemma length_header_bytes: "length (header_bytes h) = 20"
  by (simp add: header_bytes_def length_le32 length_le16)

lemma read_header_bytes: "read_header (header_bytes h @ rest) = h"
  by (simp add: read_header_def header_bytes_def length_le32 length_le16
      rd32_le32 rd16_le16 nth_append)

lemma count_run_spec:
  assumes "0 < count" and "i + count \<le> length data" and "count \<le> 255"
    and "\<forall>j<count. data ! (i + j) = c"
  shows "count \<le> count_run data i c count \<and> count_run data i c count \<le> 255
    \<and> i + count_run data i c count \<le> length data
    \<and> (\<forall>j<count_run data i c count. data ! (i + j) = c)"
  using assms
proof (induction data i c count rule: count_run.induct)
  case (1 data i c count)
  show ?case
  proof (cases "i + count < length data \<and> data ! (i + count) = c \<and> count < 255")
    case True
    have "\<forall>j<count + 1. data ! (i + j) = c"
      using True "1.prems"(4) by (auto simp: less_Suc_eq)
    with True "1.prems" have
      "count + 1 \<le> count_run data i c (count + 1) \<and> count_run data i c (count + 1) \<le> 255
       \<and> i + count_run data i c (count + 1) \<le> length data
       \<and> (\<forall>j<count_run data i c (count + 1). data ! (i + j) = c)"
      by (intro "1.IH") auto
    moreover have "count_run data i c count = count_run data i c (count + 1)"
      using True by (subst count_run.simps) simp
    ultimately show ?thesis by simp
  next
    case False
    then have "count_run data i c count = count"
      by (subst count_run.simps) auto
    with "1.prems" show ?thesis by simp
  qed
qed

lemma count_run_first:
  assumes "i < length data"
  shows "1 \<le> count_run data i (data ! i) 1 \<and> count_run data i (data ! i) 1 \<le> 255
    \<and> i + count_run data i (data ! i) 1 \<le> length data
    \<and> take (count_run data i (data ! i) 1) (drop i data)
        = replicate (count_run data i (data ! i) 1) (data ! i)"
proof -
  let ?r = "count_run data i (data ! i) 1"
  have spec: "1 \<le> ?r \<and> ?r \<le> 255 \<and> i + ?r \<le> length data
      \<and> (\<forall>j<?r. data ! (i + j) = data ! i)"
    using assms count_run_spec [of 1 i data "data ! i"] by simp
  then have "take ?r (drop i data) = replicate ?r (data ! i)"
    by (intro nth_equalityI) auto
  with spec show ?thesis by simp
qed

lemma rleDecompress_append:
  "even (length xs) \<Longrightarrow> rleDecompress (xs @ ys) = rleDecompress xs @ rleDecompress ys"
  by (induction xs rule: rleDecompress.induct) auto

lemma rleDecompress_rle_loop:
  "i \<le> length data \<Longrightarrow> even (length compressed) \<Longrightarrow>
   rleDecompress (rle_loop data i compressed) = rleDecompress compressed @ drop i data"
proof (induction data i compressed rule: rle_loop.induct)
  case (1 data i compressed)
  show ?case
  proof (cases "i < length data")
    case True
    let ?c = "data ! i"
    let ?r = "count_run data i ?c 1"
    note run = count_run_first [OF True]
    have unat_r: "unat (of_nat ?r :: byte) = ?r"
      using run by (simp add: unat_of_nat)
    have "rleDecompress (rle_loop data i compressed)
        = rleDecompress (rle_loop data (i + ?r) (compressed @ [of_nat ?r, ?c]))"
      using True by (subst rle_loop.simps) (simp add: Let_def)
    also have "\<dots> = rleDecompress (compressed @ [of_nat ?r, ?c]) @ drop (i + ?r) data"
      using True run "1.prems" by (intro "1.IH") auto
    also have "\<dots> = rleDecompress compressed @ replicate ?r ?c @ drop (i + ?r) data"
      using "1.prems" unat_r by (simp add: rleDecompress_append)
    also have "replicate ?r ?c @ drop (i + ?r) data
        = take ?r (drop i data) @ drop ?r (drop i data)"
      using run by (simp add: add.commute)
    also have "take ?r (drop i data) @ drop ?r (drop i data) = drop i data"
      by (rule append_take_drop_id)
    finally show ?thesis .
  next
    case False
    with "1.prems" show ?thesis
      by (subst rle_loop.simps) simp
  qed
qed

lemma rleDecompress_rleCompress: "rleDecompress (rleCompress data) = data"
  using rleDecompress_rle_loop [of 0 data "[]"] by (simp add: rleCompress_def)

lemma decompress_compress_cases:
  "decompress (compress x) =
     (if length x = unat (of_nat (length x) :: 32 word) then Inr x else Inl SizeMismatch)"
  by (simp add: decompress_def compress_def Let_def sizeof_CompressionHeader_def
      length_header_bytes read_header_bytes rleDecompress_rleCompress)

text \<open>
  C1 (as amended). For every byte sequence whose length fits the 32-bit
  \<^verbatim>\<open>originalSize\<close> field of the header, decompressing the compressed buffer gives
  the sequence back. The empty sequence and runs of more than 255 equal bytes are
  included.
\<close>

theorem decompress_compress_roundtrip:
  "length x < 2 ^ 32 \<Longrightarrow> decompress (compress x) = Inr x"
  by (simp add: decompress_compress_cases unat_of_nat)

theorem decompress_compress_roundtrip_witness:
  "length (replicate 300 (65 :: byte) @ [66]) < 2 ^ 32
   \<and> decompress (compress (replicate 300 65 @ [66])) = Inr (replicate 300 65 @ [66])"
  using decompress_compress_roundtrip [of "replicate 300 (65 :: byte) @ [66]"] by simp

text \<open>
  C1 as stated fails once the length no longer fits the header field: for
  \<open>2 ^ 32\<close> zero bytes the header records length 0 and \<^verbatim>\<open>decompress\<close>
  throws its size-mismatch error.
\<close>

theorem decompress_compress_counterexample:
  "decompress (compress (replicate (2 ^ 32) (0 :: byte))) = Inl SizeMismatch"
  by (simp add: decompress_compress_cases unat_of_nat)

section \<open>LRU eviction: rotation and termination\<close>

lemma moveToFront_last:
  "es \<noteq> [] \<Longrightarrow>
   moveToFront (length es - 1) es = (if length es = 1 then es else last es # butlast es)"
  by (cases es rule: rev_cases) (auto simp: moveToFront_def nth_append)

lemma set_last_butlast: "es \<noteq> [] \<Longrightarrow> set (last es # butlast es) = set es"
  by (cases es rule: rev_cases) auto

text \<open>
  When some entry is not pinned, the loop rotates the pinned entries behind the last
  such entry to the head, keeping their order, erases that entry and returns.
\<close>

lemma lru_evict_rotates:
  assumes "key e \<notin> lru_pinnedKeys c" and "\<forall>p\<in>set ps. key p \<in> lru_pinnedKeys c"
  shows "lru_evict (c\<lparr>lru_entries := xs @ e # ps\<rparr>)
     = Some (c\<lparr>lru_entries := ps @ xs, lru_stats := count_eviction (lru_stats c)\<rparr>)"
  using assms
proof (induction ps arbitrary: xs rule: rev_induct)
  case Nil
  then show ?case
    by (subst lru_evict.simps) simp
next
  case (snoc p ps)
  let ?c0 = "c\<lparr>lru_entries := xs @ e # ps @ [p]\<rparr>"
  have mv: "moveToFront (length (lru_entries ?c0) - 1) (lru_entries ?c0) = (p # xs) @ e # ps"
    using moveToFront_last [of "xs @ e # ps @ [p]"]
    by (simp add: butlast_append)
  have "lru_evict ?c0 = lru_evict (c\<lparr>lru_entries := (p # xs) @ e # ps\<rparr>)"
    using snoc.prems mv by (subst lru_evict.simps) (simp add: Let_def)
  also have "\<dots> = Some (c\<lparr>lru_entries := ps @ p # xs,
      lru_stats := count_eviction (lru_stats c)\<rparr>)"
    using snoc.IH [of "p # xs"] snoc.prems by simp
  finally show ?case by simp
qed

text \<open>
  With two or more entries, all of them pinned, no run of the loop returns: a rotation
  keeps the length and the keys, so neither \<^verbatim>\<open>break\<close> is ever reached.
\<close>

lemma lru_evict_Some_not_all_pinned:
  assumes "lru_evict c = Some y"
  shows "\<not> (2 \<le> length (lru_entries c)
    \<and> (\<forall>e\<in>set (lru_entries c). key e \<in> lru_pinnedKeys c))"
proof (rule lru_evict.raw_induct
    [where P = "\<lambda>c y. \<not> (2 \<le> length (lru_entries c)
       \<and> (\<forall>e\<in>set (lru_entries c). key e \<in> lru_pinnedKeys c))", OF _ assms])
  fix evict :: "('a, 'b) EnhancedLRUCache \<Rightarrow> ('a, 'b) EnhancedLRUCache option"
    and c y :: "('a, 'b) EnhancedLRUCache"
  let ?bad = "\<lambda>c :: ('a, 'b) EnhancedLRUCache. 2 \<le> length (lru_entries c)
       \<and> (\<forall>e\<in>set (lru_entries c). key e \<in> lru_pinnedKeys c)"
  let ?c1 = "c\<lparr>lru_entries := moveToFront (length (lru_entries c) - 1) (lru_entries c)\<rparr>"
  assume IH: "\<And>x y. evict x = Some y \<Longrightarrow> \<not> ?bad x"
    and step: "(if lru_entries c = [] then Some c
      else let lastIt = last (lru_entries c)
           in if key lastIt \<notin> lru_pinnedKeys c
              then Some (c\<lparr>lru_entries := butlast (lru_entries c),
                           lru_stats := count_eviction (lru_stats c)\<rparr>)
              else let c1 = ?c1
                   in if length (lru_entries c1) \<le> 1 then Some c1 else evict c1) = Some y"
  show "\<not> ?bad c"
  proof
    assume bad: "?bad c"
    then have ne: "lru_entries c \<noteq> []" by auto
    have mv: "lru_entries ?c1 = last (lru_entries c) # butlast (lru_entries c)"
      using bad ne moveToFront_last [of "lru_entries c"] by simp
    have "key (last (lru_entries c)) \<in> lru_pinnedKeys c"
      using bad ne by simp
    with step ne bad mv have ev: "evict ?c1 = Some y"
      by (simp add: Let_def split: if_splits)
    have "set (last (lru_entries c) # butlast (lru_entries c)) = set (lru_entries c)"
      using ne by (rule set_last_butlast)
    then have "set (lru_entries ?c1) = set (lru_entries c)"
      using mv by simp
    moreover have "length (lru_entries ?c1) = length (lru_entries c)"
      using ne mv by simp
    ultimately have "?bad ?c1"
      using bad by simp
    with IH [OF ev] show False by blast
  qed
qed

lemma lru_evict_all_pinned:
  "2 \<le> length (lru_entries c) \<Longrightarrow> \<forall>e\<in>set (lru_entries c). key e \<in> lru_pinnedKeys c
   \<Longrightarrow> lru_evict c = None"
  using lru_evict_Some_not_all_pinned [of c] by (cases "lru_evict c") auto

text \<open>
  C4 (the code departs from the claim). On an LRU cache of capacity 2 the calls
  \<^verbatim>\<open>put(1), put(2), pin(1), pin(2), put(3)\<close> reach \<^verbatim>\<open>evict\<close> with two
  entries, both pinned. The guard \<^verbatim>\<open>if (entries.size() <= 1) break;\<close> only stops
  a list of one entry, so the last \<^verbatim>\<open>put\<close> does not return: the run has no result.
\<close>

theorem lru_evict_all_pinned_diverges:
  "run_ops [([], Put (1::nat) ''a''), ([], Put 2 ''b''), ([], Pin 1), ([], Pin 2),
            ([], Put 3 ''c'')] (cache_new LRU 2) = None"
  by (simp add: lru_put_def lru_new_def lru_emplace_front_def lru_pin_def new_entry_def
      lru_evict_all_pinned)

section \<open>Journal: checkpoint\<close>



section \<open>Coordinator: authentication\<close>

lemma check_login_createFile:
  "check_login fs ''create file'' = Some e \<Longrightarrow> createFile H path fs = (Inl e, fs)"
  by (simp add: createFile_def)

lemma check_login_writeFile:
  "check_login fs ''write file'' = Some e \<Longrightarrow> writeFile H rest path data fs = Some (Inl e, fs)"
  by (simp add: writeFile_def)

lemma check_login_readFile:
  "check_login fs ''read file'' = Some e \<Longrightarrow> readFile H rest path fs = Some (Inl e, fs)"
  by (simp add: readFile_def)

lemma check_login_deleteFile:
  "check_login fs ''delete file'' = Some e \<Longrightarrow> deleteFile H path fs = (Inl e, fs)"
  by (simp add: deleteFile_def)

lemma check_login_unauthenticated:
  "authManager fs = Some a \<Longrightarrow> \<not> isLoggedIn a \<Longrightarrow>
   check_login fs what = Some (FSException (''Authentication required to '' @ what))"
  by (simp add: check_login_def)

text \<open>
  C7 (the code departs from the claim). With an authentication manager present and no
  user logged in, \<^verbatim>\<open>createDirectory\<close> creates the directory and returns
  \<open>True\<close>, \<^verbatim>\<open>listDirectory\<close> returns the listing and
  \<^verbatim>\<open>setPermissions\<close> succeeds, where the file operations above return the
  authentication error and leave the state as it was.
\<close>

theorem directory_operations_skip_authentication:
  "\<not> isLoggedIn (auth_example [])
   \<and> createDirectory simple_ops ''d'' (fs_new ''root'' (Some (auth_example [])) [])
       = (Inr True, fs_new ''root'' (Some (auth_example [])) [(''d'', True, [])])
   \<and> fst (listDirectory simple_ops ''d''
            (fs_new ''root'' (Some (auth_example [])) [(''d'', True, []), (''d/f'', False, ''x'')]))
       = Inr [''f'']
   \<and> fst (setPermissions simple_ops ''f'' 0x1FF
            (fs_new ''root'' (Some (auth_example [])) [(''f'', False, ''x'')]))
       = Inr ()"
  by (simp add: isLoggedIn_def auth_example_def createDirectory_def listDirectory_def
      setPermissions_def exists_def simple_ops_def simple_stat_def fs_new_def saveMetadata_def
      Let_def)

section \<open>Coordinator: delete clears the cache\<close>

lemma cache_clear_size: "cache_size (cache_clear c) = 0"
  by (cases c) (simp_all add: lru_clear_def lru_size_def lfu_clear_def lfu_size_def
      fifo_clear_def fifo_size_def lifo_clear_def lifo_size_def)

lemma cache_clear_contains: "\<not> cache_contains q (cache_clear c)"
  by (cases c) (simp_all add: lru_clear_def lru_contains_def lfu_clear_def lfu_contains_def
      fifo_clear_def fifo_contains_def lifo_clear_def lifo_contains_def)

lemma cache_get_miss:
  "\<not> cache_contains q c \<Longrightarrow>
   fst (cache_get q c) = Inl KeyNotFound
   \<and> misses (cache_getStatistics (snd (cache_get q c))) = misses (cache_getStatistics c) + 1
   \<and> cache_size (snd (cache_get q c)) = cache_size c
   \<and> (\<forall>k. cache_contains k (snd (cache_get q c)) = cache_contains k c)"
  by (cases c) (simp_all add: lru_contains_def lru_get_def lru_getStatistics_def lru_size_def
      lfu_contains_def lfu_get_def lfu_getStatistics_def lfu_size_def
      fifo_contains_def fifo_get_def fifo_getStatistics_def fifo_size_def
      lifo_contains_def lifo_get_def lifo_getStatistics_def lifo_size_def
      count_miss_def updateHitRate_def Let_def)

subsection \<open>Eviction leaves the access counters alone\<close>

lemma same_access_refl [simp]: "same_access s s"
  by (simp add: same_access_def)

lemma same_access_count_eviction [simp]: "same_access s (count_eviction s)"
  by (simp add: same_access_def count_eviction_def)

lemma same_access_count_prefetch [simp]: "same_access s (count_prefetch s)"
  by (simp add: same_access_def count_prefetch_def)

lemma same_access_trans: "same_access s t \<Longrightarrow> same_access t u \<Longrightarrow> same_access s u"
  by (simp add: same_access_def)

lemma lru_evict_stats:
  assumes "lru_evict c = Some y"
  shows "same_access (lru_stats c) (lru_stats y)"
proof (rule lru_evict.raw_induct
    [where P = "\<lambda>c y. same_access (lru_stats c) (lru_stats y)", OF _ assms])
  fix evict :: "('a, 'b) EnhancedLRUCache \<Rightarrow> ('a, 'b) EnhancedLRUCache option"
    and c y :: "('a, 'b) EnhancedLRUCache"
  assume IH: "\<And>x y. evict x = Some y \<Longrightarrow> same_access (lru_stats x) (lru_stats y)"
    and step: "(if lru_entries c = [] then Some c
      else let lastIt = last (lru_entries c)
           in if key lastIt \<notin> lru_pinnedKeys c
              then Some (c\<lparr>lru_entries := butlast (lru_entries c),
                           lru_stats := count_eviction (lru_stats c)\<rparr>)
              else let c1 = c\<lparr>lru_entries :=
                         moveToFront (length (lru_entries c) - 1) (lru_entries c)\<rparr>
                   in if length (lru_entries c1) \<le> 1 then Some c1 else evict c1) = Some y"
  show "same_access (lru_stats c) (lru_stats y)"
    using step IH [of "c\<lparr>lru_entries :=
        moveToFront (length (lru_entries c) - 1) (lru_entries c)\<rparr>" y]
    by (auto simp: Let_def split: if_splits)
qed

lemma lfu_scan_stats: "same_access (lfu_stats c) (lfu_stats (lfu_scan fs c))"
  by (induction fs) (auto simp: Let_def split: option.splits)

lemma lfu_evict_stats: "same_access (lfu_stats c) (lfu_stats (lfu_evict rest c))"
  by (simp add: lfu_evict_def lfu_scan_stats del: lfu_scan.simps)

lemma fifo_evict_stats: "same_access (fifo_stats c) (fifo_stats (fifo_evict c))"
proof (induction c rule: fifo_evict.induct)
  case (1 c)
  show ?case
  proof (cases "fifo_insertionOrder c")
    case Nil
    then show ?thesis by (subst fifo_evict.simps) simp
  next
    case (Cons oldestKey queue)
    then show ?thesis
      using "1.IH" [OF Cons refl]
      by (subst fifo_evict.simps) (auto simp: Let_def)
  qed
qed

lemma lifo_evict_stats: "same_access (lifo_stats c) (lifo_stats (lifo_evict c))"
  by (simp add: lifo_evict_def Let_def split: prod.splits option.splits)

lemma cache_put_stats:
  "cache_put rest k v c = Some c1 \<Longrightarrow>
   same_access (cache_getStatistics c) (cache_getStatistics c1)"
proof (cases c)
  case (ImplLRU x)
  assume "cache_put rest k v c = Some c1"
  with ImplLRU show ?thesis
    using lru_evict_stats [of x]
    by (auto simp: lru_put_def lru_emplace_front_def lru_getStatistics_def same_access_def
        split: option.splits if_splits)
next
  case (ImplLFU x)
  assume "cache_put rest k v c = Some c1"
  with ImplLFU show ?thesis
    using lfu_evict_stats [of x rest]
    by (auto simp: lfu_put_def lfu_insert_def updateFrequency_def lfu_getStatistics_def
        same_access_def Let_def split: option.splits if_splits)
next
  case (ImplFIFO x)
  assume "cache_put rest k v c = Some c1"
  with ImplFIFO show ?thesis
    using fifo_evict_stats [of x]
    by (auto simp: fifo_put_def fifo_insert_def fifo_getStatistics_def
        same_access_def Let_def split: option.splits if_splits)
next
  case (ImplLIFO x)
  assume "cache_put rest k v c = Some c1"
  with ImplLIFO show ?thesis
    using lifo_evict_stats [of x]
    by (auto simp: lifo_put_def lifo_insert_def lifo_getStatistics_def
        same_access_def Let_def split: option.splits if_splits)
qed

lemma cache_put_empty:
  "cache_size c = 0 \<Longrightarrow> \<exists>c1. cache_put rest q v c = Some c1"
  apply (cases c)
     apply (simp_all add: lru_put_def lru_size_def split: option.splits)
  apply (subst lru_evict.simps)
  apply simp
  done

lemma deleteFile_success:
  assumes "deleteFile H p fs = (Inr True, fs1)"
  shows "check_login fs ''delete file'' = None" and "check_owner H fs p = None"
    and "enhancedCache fs1 = cm_clear (enhancedCache fs)"
    and "authManager fs1 = authManager fs" and "stats fs1 = stats fs"
  using assms
  by (auto simp: deleteFile_def saveMetadata_def Let_def
      split: option.splits if_splits prod.splits)

lemma check_login_what:
  "check_login fs what = None \<Longrightarrow> check_login fs what' = None"
  by (auto simp: check_login_def split: option.splits if_splits)

lemma check_owner_other:
  assumes "check_login fs what = None" and "check_owner H fs p = None"
    and "authManager fs1 = authManager fs" and "h_stat H (host fs1) q \<noteq> None"
  shows "check_owner H fs1 q = None"
  using assms
  by (auto simp: check_owner_def check_login_def getFileInfo_def getMetadata_def exists_def
      default_FileMetadata_def isLoggedIn_def split: option.splits if_splits sum.splits)

text \<open>
  C10. After a successful \<^verbatim>\<open>deleteFile\<close> of any path the cache is empty: no
  path is resident, so the lookup of any path \<open>q\<close> misses, and the next
  \<^verbatim>\<open>readFile\<close> of a path that the host can stat and open returns the host's
  content, counts one miss in the coordinator and in the cache and no hit.
\<close>

theorem deleteFile_clears_whole_cache:
  assumes "deleteFile H p fs = (Inr True, fs1)"
    and "h_stat H (host fs1) q \<noteq> None" and "h_read H (host fs1) q = Some data"
  shows "cache_size (cache (enhancedCache fs1)) = 0
    \<and> \<not> cm_contains q (enhancedCache fs1)
    \<and> fst (cm_get q (enhancedCache fs1)) = Inl KeyNotFound
    \<and> (\<exists>fs2. readFile H rest q fs1 = Some (Inr data, fs2)
          \<and> cacheMisses (stats fs2) = cacheMisses (stats fs1) + 1
          \<and> cacheHits (stats fs2) = cacheHits (stats fs1)
          \<and> misses (cache_getStatistics (cache (enhancedCache fs2)))
              = misses (cache_getStatistics (cache (enhancedCache fs1))) + 1)"
proof -
  note d = deleteFile_success [OF assms(1)]
  let ?c = "cache (enhancedCache fs1)"
  have c: "?c = cache_clear (cache (enhancedCache fs))"
    by (simp add: d(3) cm_clear_def)
  have size0: "cache_size ?c = 0"
    by (simp add: c cache_clear_size)
  have nc: "\<not> cache_contains q ?c"
    by (simp add: c cache_clear_contains)
  note miss = cache_get_miss [OF nc]
  obtain r c1 where g: "cache_get q ?c = (r, c1)"
    by (cases "cache_get q ?c")
  with miss have r: "r = Inl KeyNotFound" and c1: "cache_size c1 = 0"
    and m1: "misses (cache_getStatistics c1) = misses (cache_getStatistics ?c) + 1"
    using size0 by simp_all
  obtain c2 where p2: "cache_put rest q data c1 = Some c2"
    using cache_put_empty [OF c1] by blast
  have login: "check_login fs1 ''read file'' = None"
    using check_login_what [OF d(1)] d(4) by (simp add: check_login_def)
  have own: "check_owner H fs1 q = None"
    using check_owner_other [OF d(1) d(2) d(4) assms(2)] .
  have m2: "misses (cache_getStatistics c2) = misses (cache_getStatistics c1)"
    using cache_put_stats [OF p2] by (simp add: same_access_def)
  let ?st = "stats fs1"
  let ?fs2 = "fs1\<lparr>enhancedCache := (enhancedCache fs1)\<lparr>cache := c2\<rparr>,
      stats := ?st\<lparr>cacheMisses := cacheMisses ?st + 1, totalReads := totalReads ?st + 1,
        totalFileOperations := totalFileOperations ?st + 1\<rparr>\<rparr>"
  have "readFile H rest q fs1 = Some (Inr data, ?fs2)"
    using login own g r p2 assms(2,3)
    by (simp add: readFile_def cm_get_def cm_put_def exists_def Let_def)
  moreover have "fst (cm_get q (enhancedCache fs1)) = Inl KeyNotFound"
    using g r by (simp add: cm_get_def)
  ultimately show ?thesis
    using size0 nc m1 m2 by (simp add: cm_contains_def)
qed


lemmas fs_eval =
  fs_cached_example_def fs_new_def auth_example_def simple_ops_def simple_stat_def
  deleteFile_def check_login_def check_owner_def getFileInfo_def getMetadata_def exists_def
  isLoggedIn_def auth_isAdmin_def default_FileMetadata_def saveMetadata_def cm_clear_def
  cm_contains_def lru_contains_def lru_new_def new_entry_def manager_new_def Let_def

theorem deleteFile_clears_whole_cache_witness:
  "cm_contains ''q'' (enhancedCache fs_cached_example)
   \<and> fst (deleteFile simple_ops ''p'' fs_cached_example) = Inr True
   \<and> cache_size (cache (enhancedCache (snd (deleteFile simple_ops ''p'' fs_cached_example)))) = 0
   \<and> (\<exists>fs2. readFile simple_ops [] ''q'' (snd (deleteFile simple_ops ''p'' fs_cached_example))
              = Some (Inr ''y'', fs2)
          \<and> cacheMisses (stats fs2)
              = cacheMisses (stats (snd (deleteFile simple_ops ''p'' fs_cached_example))) + 1)"
proof -
  let ?fs1 = "snd (deleteFile simple_ops ''p'' fs_cached_example)"
  have d: "deleteFile simple_ops ''p'' fs_cached_example = (Inr True, ?fs1)"
    by (simp add: fs_eval)
  have h: "host ?fs1 = [(''q'', False, ''y'')]"
    by (simp add: fs_eval)
  have st: "h_stat simple_ops (host ?fs1) ''q'' \<noteq> None"
    by (subst h) (simp add: simple_ops_def simple_stat_def)
  have rd: "h_read simple_ops (host ?fs1) ''q'' = Some ''y''"
    by (subst h) (simp add: simple_ops_def)
  have cached: "cm_contains ''q'' (enhancedCache fs_cached_example)"
    by (simp add: fs_eval)
  have ok: "fst (deleteFile simple_ops ''p'' fs_cached_example) = Inr True"
    by (simp add: fs_eval)
  show ?thesis
    using deleteFile_clears_whole_cache [OF d st rd, of "[]"] ok cached by blast
qed

section \<open>Zero capacity\<close>

lemma lfu_put_zero_capacity: "lfu_maxCapacity c = 0 \<Longrightarrow> lfu_put rest k v c = c"
  by (simp add: lfu_put_def)

lemmas cache_eval =
  lru_new_def lfu_new_def fifo_new_def lifo_new_def new_entry_def new_statistics_def
  lru_put_def lru_get_def lru_emplace_front_def lru_size_def lru_contains_def lru_pin_def
  lru_getStatistics_def
  lfu_put_def lfu_get_def lfu_insert_def lfu_size_def lfu_contains_def lfu_pin_def
  lfu_evict_def updateFrequency_def bucket_def lfu_getStatistics_def
  fifo_put_def fifo_get_def fifo_insert_def fifo_size_def fifo_contains_def fifo_pin_def
  fifo_getStatistics_def
  lifo_put_def lifo_get_def lifo_insert_def lifo_size_def lifo_contains_def lifo_pin_def
  lifo_evict_def lifo_getStatistics_def
  count_hit_def count_miss_def count_eviction_def updateHitRate_def moveToFront_def Let_def

text \<open>
  C5 (the code departs from the claim). \<^verbatim>\<open>LFUCache::put\<close> returns at once when
  the capacity is zero. The other three policies have no such test: on a cache of
  capacity zero \<^verbatim>\<open>put(1, "a")\<close> finds nothing to evict, inserts the entry, and
  the following \<^verbatim>\<open>get(1)\<close> is a hit that returns the value.
\<close>

theorem zero_capacity_put_stays_resident:
  "map (\<lambda>policy. map_option (\<lambda>c. (cache_size c, fst (cache_get (1::nat) c)))
          (cache_put [] 1 ''a'' (cache_new policy 0)))
     [LRU, FIFO, LIFO, LFU]
   = [Some (1, Inr ''a''), Some (1, Inr ''a''), Some (1, Inr ''a''), Some (0, Inl KeyNotFound)]"
  apply (simp add: cache_eval)
  apply (subst lru_evict.simps)
  apply (subst fifo_evict.simps)
  apply (simp add: cache_eval fcard_finsert_if)
  done


section \<open>LFU eviction order\<close>

text \<open>
  C2 (the code departs from the claim). Capacity 2; \<^verbatim>\<open>put(1), pin(1), put(2),
  get(2), put(3)\<close>. When the last call evicts, bucket 1 holds the pinned key 1 and
  bucket 2 holds key 2, the least frequent unpinned key. The scan starts at the node of
  frequency 1 and goes on in the hash table's iteration order. Where no node follows
  that of frequency 1 (a table that links each new node in front of the older ones),
  nothing is evicted and three keys are resident; where the node of frequency 2
  follows, key 2 is evicted.
\<close>

theorem lfu_evict_follows_table_order:
  "map_option (\<lambda>c. map (\<lambda>k. cache_contains k c) [1, 2, 3])
     (run_ops [([], Put (1::nat) ''a''), ([], Pin 1), ([], Put 2 ''b''), ([], Get 2),
               ([], Put 3 ''c'')] (cache_new LFU 2))
     = Some [True, True, True]
   \<and> map_option (\<lambda>c. map (\<lambda>k. cache_contains k c) [1, 2, 3])
     (run_ops [([], Put (1::nat) ''a''), ([], Pin 1), ([], Put 2 ''b''), ([], Get 2),
               ([2], Put 3 ''c'')] (cache_new LFU 2))
     = Some [True, False, True]"
  by code_simp

section \<open>Statistics: hit rate\<close>



lemma stats_consistent_new [simp]: "stats_consistent new_statistics"
  by (simp add: stats_consistent_def new_statistics_def)

lemma stats_consistent_updateHitRate [simp]: "stats_consistent (updateHitRate s)"
  by (simp add: stats_consistent_def updateHitRate_def Let_def)

lemma stats_consistent_count_hit [simp]: "stats_consistent (count_hit s)"
  by (simp add: count_hit_def)

lemma stats_consistent_count_miss [simp]: "stats_consistent (count_miss s)"
  by (simp add: count_miss_def)

lemma stats_consistent_pinnedItems [simp]:
  "stats_consistent (s\<lparr>pinnedItems := n\<rparr>) = stats_consistent s"
  by (simp add: stats_consistent_def)


lemma same_access_pinnedItems [simp]:
  "same_access (s\<lparr>pinnedItems := n\<rparr>) (t\<lparr>pinnedItems := m\<rparr>) = same_access s t"
  by (simp add: same_access_def)



lemma cache_remove_stats: "cache_getStatistics (cache_remove k c) = cache_getStatistics c
    \<or> same_access (cache_getStatistics c) (cache_getStatistics (cache_remove k c))"
  by (cases c)
    (simp_all add: lru_remove_def lru_getStatistics_def lfu_remove_def lfu_getStatistics_def
      fifo_remove_def fifo_getStatistics_def lifo_remove_def lifo_getStatistics_def Let_def
      split: option.splits)






section \<open>The matcher of find\<close>

subsection \<open>Substring search\<close>




subsection \<open>The glob relation\<close>






subsection \<open>The loops\<close>










section \<open>Capacity and pinned entries\<close>

subsection \<open>Lists and finite maps\<close>





subsection \<open>LRU without pins\<close>




subsection \<open>FIFO without pins\<close>






subsection \<open>LIFO without pins\<close>











subsection \<open>LFU without pins\<close>














subsection \<open>Every policy\<close>







subsection \<open>Pinned entries stay resident\<close>






















end
